theory Spec2Isabelle
  imports Main "HOL-Library.Sublist"
begin

section \<open>The technique catalog: table \<open>ttps\<close>\<close>

text \<open>
  A row of the table \<open>ttps\<close> created by \<open>init_db\<close>. The columns \<open>technique_id\<close> and
  \<open>tactic\<close> only ever receive Python strings; \<open>name\<close> receives \<open>obj.get("name")\<close> in the
  bundle import, which is \<open>None\<close> (SQL NULL) when the key is absent, and the \<open>UPDATE\<close> of the
  spreadsheet pass tests both \<open>name\<close> and \<open>description\<close> for NULL, so both are optional here.
  The surrogate \<open>id\<close> column is never read by the ingestion code and is left out;
  the column \<open>tactic\<close> is the field \<open>tactic_id\<close>.
\<close>

record ttp =
  technique_id :: string
  tactic_id :: string
  name :: "string option"
  description :: "string option"
  refs :: string
  created_at :: string

definition row_key :: "ttp \<Rightarrow> string \<times> string" where
  "row_key r = (technique_id r, tactic_id r)"

definition keys_of :: "ttp list \<Rightarrow> (string \<times> string) list" where
  "keys_of tbl = map row_key tbl"

text \<open>
  \<open>INSERT OR IGNORE INTO ttps ...\<close> under \<open>UNIQUE(technique_id, tactic) ON CONFLICT IGNORE\<close>:
  the row is appended unless a row with the same pair is present. The plain \<open>INSERT\<close> of
  \<open>seed_minimal_ttps\<close> resolves a conflict the same way, by the table's own clause.
\<close>

definition insert_or_ignore :: "ttp \<Rightarrow> ttp list \<Rightarrow> ttp list" where
  "insert_or_ignore r tbl = (if row_key r \<in> set (keys_of tbl) then tbl else tbl @ [r])"

text \<open>
  The \<open>UPDATE ttps SET name = CASE ... END, description = CASE ... END
  WHERE technique_id=? AND tactic=?\<close> of \<open>_try_enrich_from_xlsx\<close>, with parameters
  \<open>(nm, ds, tid, tac)\<close>.
\<close>

definition enrich_name :: "string \<Rightarrow> ttp \<Rightarrow> string option" where
  "enrich_name nm r =
     (if name r = None \<or> name r = Some [] \<or> name r = Some (technique_id r)
      then Some nm else name r)"

definition enrich_description :: "string \<Rightarrow> ttp \<Rightarrow> string option" where
  "enrich_description ds r =
     (if description r = None \<or> description r = Some [] then Some ds else description r)"

definition enrich_row :: "string \<Rightarrow> string \<Rightarrow> string \<Rightarrow> string \<Rightarrow> ttp \<Rightarrow> ttp" where
  "enrich_row nm ds tid tac r =
     (if technique_id r = tid \<and> tactic_id r = tac
      then r\<lparr>name := enrich_name nm r, description := enrich_description ds r\<rparr>
      else r)"

definition update_enrich :: "string \<Rightarrow> string \<Rightarrow> string \<Rightarrow> string \<Rightarrow> ttp list \<Rightarrow> ttp list" where
  "update_enrich nm ds tid tac tbl = map (enrich_row nm ds tid tac) tbl"

text \<open>The two statements executed for one recognised tactic token of a spreadsheet row.\<close>

definition xlsx_apply :: "string \<Rightarrow> string \<Rightarrow> string \<Rightarrow> string \<Rightarrow> string \<Rightarrow> ttp list \<Rightarrow> ttp list" where
  "xlsx_apply now tid tac nm ds tbl =
     update_enrich nm ds tid tac
       (insert_or_ignore
          \<lparr>technique_id = tid, tactic_id = tac, name = Some nm, description = Some ds,
           refs = [], created_at = now\<rparr> tbl)"


section \<open>Python string operations\<close>

text \<open>
  A character is a code point from 0 to 255. \<open>str.strip()\<close> removes the characters
  for which \<open>str.isspace\<close> holds: in this range the tab, the line feed, the vertical
  tab, the form feed, the carriage return, the four separators 0x1C to 0x1F, the space,
  the next-line character 0x85 and the no-break space 0xA0. \<open>str.lower()\<close> maps
  \<open>A\<close>..\<open>Z\<close> to \<open>a\<close>..\<open>z\<close> and the capital letters 0xC0 to 0xDE, the multiplication
  sign 0xD7 apart, to the letters 0xE0 to 0xFE; it leaves every other character of the
  range as it is. Code points above 255 are outside the type.
\<close>

definition startswith :: "string \<Rightarrow> string \<Rightarrow> bool" where
  "startswith s p = (take (length p) s = p)"

definition isspace :: "char \<Rightarrow> bool" where
  "isspace c = (c \<in> set [CHR 0x09, CHR 0x0A, CHR 0x0B, CHR 0x0C, CHR 0x0D,
                          CHR 0x1C, CHR 0x1D, CHR 0x1E, CHR 0x1F, CHR 0x20,
                          CHR 0x85, CHR 0xA0])"

definition strip :: "string \<Rightarrow> string" where
  "strip s = rev (dropWhile isspace (rev (dropWhile isspace s)))"

definition lower_char :: "char \<Rightarrow> char" where
  "lower_char c =
     (case map_of
        (zip (''ABCDEFGHIJKLMNOPQRSTUVWXYZ'' @
             [CHR 0xC0, CHR 0xC1, CHR 0xC2, CHR 0xC3, CHR 0xC4, CHR 0xC5, CHR 0xC6, CHR 0xC7,
              CHR 0xC8, CHR 0xC9, CHR 0xCA, CHR 0xCB, CHR 0xCC, CHR 0xCD, CHR 0xCE, CHR 0xCF,
              CHR 0xD0, CHR 0xD1, CHR 0xD2, CHR 0xD3, CHR 0xD4, CHR 0xD5, CHR 0xD6, CHR 0xD8,
              CHR 0xD9, CHR 0xDA, CHR 0xDB, CHR 0xDC, CHR 0xDD, CHR 0xDE])
             (''abcdefghijklmnopqrstuvwxyz'' @
             [CHR 0xE0, CHR 0xE1, CHR 0xE2, CHR 0xE3, CHR 0xE4, CHR 0xE5, CHR 0xE6, CHR 0xE7,
              CHR 0xE8, CHR 0xE9, CHR 0xEA, CHR 0xEB, CHR 0xEC, CHR 0xED, CHR 0xEE, CHR 0xEF,
              CHR 0xF0, CHR 0xF1, CHR 0xF2, CHR 0xF3, CHR 0xF4, CHR 0xF5, CHR 0xF6, CHR 0xF8,
              CHR 0xF9, CHR 0xFA, CHR 0xFB, CHR 0xFC, CHR 0xFD, CHR 0xFE])) c of
        None \<Rightarrow> c | Some d \<Rightarrow> d)"

definition lower :: "string \<Rightarrow> string" where
  "lower s = map lower_char s"

text \<open>
  \<open>s.replace(old, new)\<close> for a non-empty \<open>old\<close> (both call sites pass a non-empty one):
  occurrences are replaced left to right without overlap.
\<close>

fun replace :: "string \<Rightarrow> string \<Rightarrow> string \<Rightarrow> string" where
  "replace old new [] = []"
| "replace old new (c # cs) =
     (if old \<noteq> [] \<and> startswith (c # cs) old
      then new @ replace old new (drop (length old - 1) cs)
      else c # replace old new cs)"

text \<open>\<open>s.split(d)\<close> for a one-character separator: \<open>"".split(",")\<close> is \<open>[""]\<close>.\<close>

fun split :: "char \<Rightarrow> string \<Rightarrow> string list" where
  "split d [] = [[]]"
| "split d (c # cs) =
     (if c = d then [] # split d cs
      else (case split d cs of [] \<Rightarrow> [[c]] | w # ws \<Rightarrow> (c # w) # ws))"

text \<open>\<open>key in k\<close> on strings: \<open>contains k key\<close>.\<close>

fun contains :: "string \<Rightarrow> string \<Rightarrow> bool" where
  "contains [] key = (key = [])"
| "contains (c # cs) key = (startswith (c # cs) key \<or> contains cs key)"

section \<open>The registry of tactics\<close>

definition TACTIC_ORDER :: "string list" where
  "TACTIC_ORDER =
     [''reconnaissance'', ''resource-development'', ''initial-access'', ''execution'',
      ''persistence'', ''privilege-escalation'', ''defense-evasion'', ''credential-access'',
      ''discovery'', ''lateral-movement'', ''collection'', ''command-and-control'',
      ''exfiltration'', ''impact'']"

definition TACTIC_TITLES :: "(string \<times> string) list" where
  "TACTIC_TITLES =
     [(''reconnaissance'', ''Reconnaissance''),
      (''resource-development'', ''Resource Development''),
      (''initial-access'', ''Initial Access''),
      (''execution'', ''Execution''),
      (''persistence'', ''Persistence''),
      (''privilege-escalation'', ''Privilege Escalation''),
      (''defense-evasion'', ''Defense Evasion''),
      (''credential-access'', ''Credential Access''),
      (''discovery'', ''Discovery''),
      (''lateral-movement'', ''Lateral Movement''),
      (''collection'', ''Collection''),
      (''command-and-control'', ''Command & Control''),
      (''exfiltration'', ''Exfiltration''),
      (''impact'', ''Impact'')]"

text \<open>\<open>tac in TACTIC_TITLES\<close>: membership among the keys of the dictionary.\<close>

definition in_TACTIC_TITLES :: "string \<Rightarrow> bool" where
  "in_TACTIC_TITLES tac = (tac \<in> set (map fst TACTIC_TITLES))"

section \<open>Exceptions and the database connection\<close>

text \<open>
  The ingestion code raises nothing itself; what can fail is a library call on a value of
  the wrong shape (\<open>.get\<close> on something that is not a dict, \<open>.strip\<close> on a cell that is
  not text) and the loading of a file. A function that can fail returns the table as it
  stands at that moment together with either its return value or the exception.
\<close>

datatype exn = AttributeError | LoadError

datatype 'a py = Return 'a | Raise exn

text \<open>
  The sqlite3 connection of one request: the tables as this connection sees them, and
  the tables as last committed. \<open>db.execute\<close> of an \<open>INSERT\<close> or \<open>UPDATE\<close> changes the
  former only; \<open>db.commit()\<close> copies it to the latter; \<open>close_db\<close> closes the connection
  without committing, so the next request starts from the committed tables.
\<close>

record conn =
  ttps :: "ttp list"
  settings :: "string \<rightharpoonup> string"
  saved_ttps :: "ttp list"
  saved_settings :: "string \<rightharpoonup> string"

definition commit :: "conn \<Rightarrow> conn" where
  "commit db = db\<lparr>saved_ttps := ttps db, saved_settings := settings db\<rparr>"

definition close_db :: "conn \<Rightarrow> conn" where
  "close_db db = db\<lparr>ttps := saved_ttps db, settings := saved_settings db\<rparr>"

text \<open>\<open>get_db\<close> at the start of a request: a new connection, which sees the committed tables.\<close>

definition get_db :: "conn \<Rightarrow> conn" where
  "get_db db = db\<lparr>ttps := saved_ttps db, settings := saved_settings db\<rparr>"

definition get_setting :: "conn \<Rightarrow> string \<Rightarrow> string \<Rightarrow> string" where
  "get_setting db key dflt = (case settings db key of None \<Rightarrow> dflt | Some v \<Rightarrow> v)"

definition set_setting :: "string \<Rightarrow> string \<Rightarrow> conn \<Rightarrow> conn" where
  "set_setting key v db = commit (db\<lparr>settings := (settings db)(key \<mapsto> v)\<rparr>)"

section \<open>Seeding\<close>

definition DEFAULT_TTPS :: "string \<Rightarrow> ttp list" where
  "DEFAULT_TTPS now =
     [\<lparr>technique_id = ''T1059'', tactic_id = ''execution'',
       name = Some ''Command and Scripting Interpreter'',
       description = Some ''Execute commands and scripts via shells/interpreters.'',
       refs = ''https://attack.mitre.org/techniques/T1059/'', created_at = now\<rparr>,
      \<lparr>technique_id = ''T1021'', tactic_id = ''lateral-movement'',
       name = Some ''Remote Services'',
       description = Some ''RDP/SMB/SSH for lateral movement.'',
       refs = ''https://attack.mitre.org/techniques/T1021/'', created_at = now\<rparr>,
      \<lparr>technique_id = ''T1003'', tactic_id = ''credential-access'',
       name = Some ''OS Credential Dumping'',
       description = Some ''Dump creds from OS components.'',
       refs = ''https://attack.mitre.org/techniques/T1003/'', created_at = now\<rparr>]"

text \<open>A loop that inserts the rows of a list one after the other.\<close>

fun insert_all :: "ttp list \<Rightarrow> ttp list \<Rightarrow> ttp list" where
  "insert_all [] tbl = tbl"
| "insert_all (r # rs) tbl = insert_all rs (insert_or_ignore r tbl)"

text \<open>\<open>seed_minimal_ttps\<close>; \<open>now\<close> is the clock reading it takes.\<close>

definition seed_minimal_ttps :: "string \<Rightarrow> conn \<Rightarrow> conn" where
  "seed_minimal_ttps now db =
     (if length (ttps db) = 0
      then commit (db\<lparr>ttps := insert_all (DEFAULT_TTPS now) (ttps db)\<rparr>)
      else db)"

section \<open>Bundle and layer import\<close>

text \<open>
  The parsed JSON document, typed: a field that the code reads with \<open>.get\<close> is optional
  (\<open>None\<close> when the key is absent), and where present it is a string. An entry of
  \<open>objects\<close> or \<open>techniques\<close> that is not a JSON object makes \<open>.get\<close> raise.
\<close>

record ext_ref =
  source_name :: "string option"
  external_id :: "string option"

record phase =
  kill_chain_name :: "string option"
  phase_name :: "string option"

record stix_object =
  stix_type :: "string option"
  stix_name :: "string option"
  stix_description :: "string option"
  external_references :: "ext_ref list"
  kill_chain_phases :: "phase list"

datatype stix_entry = StixNotADict | StixObject stix_object

record layer_technique =
  techniqueID :: "string option"
  layer_tactic :: "string option"

datatype layer_entry = LayerNotADict | LayerTechnique layer_technique

text \<open>
  \<open>Bundle\<close>: a dict with the key \<open>objects\<close> (tested first); \<open>Layer\<close>: a dict without it
  and with the key \<open>techniques\<close>; \<open>Unrecognised\<close>: anything else.
\<close>

datatype json_doc = Bundle "stix_entry list" | Layer "layer_entry list" | Unrecognised

definition or_empty :: "string option \<Rightarrow> string" where
  "or_empty v = (case v of None \<Rightarrow> [] | Some s \<Rightarrow> s)"

definition ref_matches :: "ext_ref \<Rightarrow> bool" where
  "ref_matches ref =
     (lower (or_empty (source_name ref)) = ''mitre-attack''
      \<and> startswith (or_empty (external_id ref)) ''T'')"

fun find_tech_id :: "ext_ref list \<Rightarrow> string option" where
  "find_tech_id [] = None"
| "find_tech_id (ref # rest) =
     (if ref_matches ref then external_id ref else find_tech_id rest)"

definition stix_tactics :: "stix_object \<Rightarrow> string option list" where
  "stix_tactics obj =
     map phase_name
       (filter (\<lambda>p. kill_chain_name p = Some ''mitre-attack'') (kill_chain_phases obj))"

text \<open>
  The rows one bundle object asks to insert, in order: none when the object is not an
  \<open>attack-pattern\<close>, has no technique id or has no \<open>mitre-attack\<close> phase.
\<close>

definition stix_rows :: "string \<Rightarrow> stix_object \<Rightarrow> ttp list" where
  "stix_rows now obj =
     (if stix_type obj \<noteq> Some ''attack-pattern'' then []
      else case find_tech_id (external_references obj) of
        None \<Rightarrow> []
      | Some tech_id \<Rightarrow>
          if tech_id = [] then []
          else map (\<lambda>tac.
                 \<lparr>technique_id = tech_id, tactic_id = lower (or_empty tac),
                  name = stix_name obj,
                  description = Some (strip (or_empty (stix_description obj))),
                  refs = [], created_at = now\<rparr>)
               (stix_tactics obj))"

fun import_stix :: "string \<Rightarrow> stix_entry list \<Rightarrow> ttp list \<Rightarrow> nat \<Rightarrow> ttp list \<times> nat py" where
  "import_stix now [] tbl inserted = (tbl, Return inserted)"
| "import_stix now (StixNotADict # objs) tbl inserted = (tbl, Raise AttributeError)"
| "import_stix now (StixObject obj # objs) tbl inserted =
     import_stix now objs (insert_all (stix_rows now obj) tbl)
       (inserted + length (stix_rows now obj))"

fun import_layer :: "string \<Rightarrow> layer_entry list \<Rightarrow> ttp list \<Rightarrow> nat \<Rightarrow> ttp list \<times> nat py" where
  "import_layer now [] tbl inserted = (tbl, Return inserted)"
| "import_layer now (LayerNotADict # ts) tbl inserted = (tbl, Raise AttributeError)"
| "import_layer now (LayerTechnique t # ts) tbl inserted =
     (let tech_id = or_empty (techniqueID t); tac = lower (or_empty (layer_tactic t))
      in if tech_id = [] \<or> tac = [] then import_layer now ts tbl inserted
         else import_layer now ts
                (insert_or_ignore
                   \<lparr>technique_id = tech_id, tactic_id = tac, name = Some tech_id,
                    description = Some [], refs = [], created_at = now\<rparr> tbl)
                (Suc inserted))"

text \<open>
  \<open>_try_import_from_stix_or_layer\<close>: the two loops end with \<open>db.commit()\<close>; an exception
  leaves the rows written so far uncommitted in the connection.
\<close>

definition finish :: "conn \<Rightarrow> ttp list \<times> nat py \<Rightarrow> conn \<times> nat py" where
  "finish db res =
     (case res of
        (tbl, Return n) \<Rightarrow> (commit (db\<lparr>ttps := tbl\<rparr>), Return n)
      | (tbl, Raise e) \<Rightarrow> (db\<lparr>ttps := tbl\<rparr>, Raise e))"

definition try_import_from_stix_or_layer :: "string \<Rightarrow> json_doc \<Rightarrow> conn \<Rightarrow> conn \<times> nat py" where
  "try_import_from_stix_or_layer now js db =
     (case js of
        Bundle objs \<Rightarrow> finish db (import_stix now objs (ttps db) 0)
      | Layer ts \<Rightarrow> finish db (import_layer now ts (ttps db) 0)
      | Unrecognised \<Rightarrow> (db, Return 0))"

section \<open>Spreadsheet enrichment\<close>

text \<open>
  A cell value as openpyxl returns it: \<open>NoValue\<close> is \<open>None\<close>, \<open>Text s\<close> a string, and
  \<open>NonText s\<close> a value of another type that Python counts as true (a non-zero number, a
  date), with \<open>s\<close> what \<open>str\<close> makes of it. A value of another type that counts as false
  (zero) behaves as \<open>NoValue\<close> in a data row, and in the header row gives a header that
  contains none of the searched words.
\<close>

datatype cell = NoValue | Text string | NonText string

text \<open>
  A worksheet: row 1, columns 1 to \<open>max_column\<close>, and rows 2 to \<open>max_row\<close>.
  \<open>ws.cell(row, column).value\<close> is \<open>None\<close> where the sheet holds nothing.
\<close>

record sheet =
  header_cells :: "cell list"
  data_rows :: "cell list list"

definition cell_value :: "cell list \<Rightarrow> nat \<Rightarrow> cell" where
  "cell_value row c = (if 1 \<le> c \<and> c \<le> length row then row ! (c - 1) else NoValue)"

text \<open>\<open>header[k] = c\<close> on a dict, which keeps the order of first insertion.\<close>

fun dict_set :: "(string \<times> nat) list \<Rightarrow> string \<Rightarrow> nat \<Rightarrow> (string \<times> nat) list" where
  "dict_set [] k c = [(k, c)]"
| "dict_set ((k', c') # h) k c = (if k' = k then (k, c) # h else (k', c') # dict_set h k c)"

text \<open>The loop \<open>for c in range(1, ws.max_column+1)\<close> that builds \<open>header\<close>.\<close>

fun build_header :: "cell list \<Rightarrow> nat \<Rightarrow> (string \<times> nat) list \<Rightarrow> (string \<times> nat) list" where
  "build_header [] c header = header"
| "build_header (NoValue # vs) c header = build_header vs (Suc c) header"
| "build_header (Text s # vs) c header =
     build_header vs (Suc c) (dict_set header (lower (strip s)) c)"
| "build_header (NonText s # vs) c header =
     build_header vs (Suc c) (dict_set header (lower (strip s)) c)"

fun find_col :: "string list \<Rightarrow> (string \<times> nat) list \<Rightarrow> nat option" where
  "find_col keys [] = None"
| "find_col keys ((k, c) # header) =
     (if list_ex (\<lambda>key. contains k key) keys then Some c else find_col keys header)"

text \<open>\<open>str(v or "").strip()\<close> and \<open>(v or "").strip()\<close>; the latter raises on a non-text value.\<close>

definition str_or_empty_strip :: "cell \<Rightarrow> string" where
  "str_or_empty_strip v = (case v of NoValue \<Rightarrow> [] | Text s \<Rightarrow> strip s | NonText s \<Rightarrow> strip s)"

definition or_empty_strip :: "cell \<Rightarrow> string py" where
  "or_empty_strip v =
     (case v of NoValue \<Rightarrow> Return [] | Text s \<Rightarrow> Return (strip s)
      | NonText s \<Rightarrow> Raise AttributeError)"

text \<open>
  \<open>str(tacs_raw).replace("/", ",").replace(" & ", ",").split(",")\<close> followed by
  \<open>t.strip().lower().replace(" ", "-")\<close> on every piece.
\<close>

definition tactic_token :: "string \<Rightarrow> string" where
  "tactic_token t = replace '' '' ''-'' (lower (strip t))"

definition tactic_tokens :: "string \<Rightarrow> string list" where
  "tactic_tokens tacs_raw =
     map tactic_token
       (split CHR '','' (replace '' & '' '','' (replace ''/'' '','' tacs_raw)))"

text \<open>
  The loop over the tokens of one row. \<open>clock k\<close> is what \<open>now_iso()\<close> returns at its
  call number \<open>k\<close> within this import; it is called once for every recognised token,
  before \<open>updated\<close> is incremented.
\<close>

fun xlsx_tokens :: "(nat \<Rightarrow> string) \<Rightarrow> string \<Rightarrow> string \<Rightarrow> string \<Rightarrow> string list
    \<Rightarrow> ttp list \<Rightarrow> nat \<Rightarrow> ttp list \<times> nat" where
  "xlsx_tokens clock tid nm ds [] tbl updated = (tbl, updated)"
| "xlsx_tokens clock tid nm ds (tac # tacs) tbl updated =
     (if \<not> in_TACTIC_TITLES tac then xlsx_tokens clock tid nm ds tacs tbl updated
      else xlsx_tokens clock tid nm ds tacs
             (xlsx_apply (clock updated) tid tac nm ds tbl) (Suc updated))"

definition xlsx_row :: "(nat \<Rightarrow> string) \<Rightarrow> nat \<Rightarrow> nat \<Rightarrow> nat option \<Rightarrow> nat \<Rightarrow> cell list
    \<Rightarrow> ttp list \<Rightarrow> nat \<Rightarrow> ttp list \<times> nat py" where
  "xlsx_row clock col_id col_name col_desc col_tac row tbl updated =
     (let tid = str_or_empty_strip (cell_value row col_id) in
      if \<not> startswith tid ''T'' then (tbl, Return updated)
      else case or_empty_strip (cell_value row col_name) of
        Raise e \<Rightarrow> (tbl, Raise e)
      | Return nm \<Rightarrow>
         (case (case col_desc of None \<Rightarrow> Return []
                | Some c \<Rightarrow> or_empty_strip (cell_value row c)) of
            Raise e \<Rightarrow> (tbl, Raise e)
          | Return ds \<Rightarrow>
             (case or_empty_strip (cell_value row col_tac) of
                Raise e \<Rightarrow> (tbl, Raise e)
              | Return tacs_raw \<Rightarrow>
                  if tacs_raw = [] then (tbl, Return updated)
                  else apsnd Return
                         (xlsx_tokens clock tid nm ds (tactic_tokens tacs_raw) tbl updated))))"

fun xlsx_rows :: "(nat \<Rightarrow> string) \<Rightarrow> nat \<Rightarrow> nat \<Rightarrow> nat option \<Rightarrow> nat \<Rightarrow> cell list list
    \<Rightarrow> ttp list \<Rightarrow> nat \<Rightarrow> ttp list \<times> nat py" where
  "xlsx_rows clock col_id col_name col_desc col_tac [] tbl updated = (tbl, Return updated)"
| "xlsx_rows clock col_id col_name col_desc col_tac (row # rows) tbl updated =
     (case xlsx_row clock col_id col_name col_desc col_tac row tbl updated of
        (tbl', Raise e) \<Rightarrow> (tbl', Raise e)
      | (tbl', Return updated') \<Rightarrow>
          xlsx_rows clock col_id col_name col_desc col_tac rows tbl' updated')"

text \<open>The four calls of \<open>find_col\<close>, and the test that skips a sheet.\<close>

definition sheet_header :: "sheet \<Rightarrow> (string \<times> nat) list" where
  "sheet_header ws = build_header (header_cells ws) 1 []"

definition find_col_id :: "sheet \<Rightarrow> nat option" where
  "find_col_id ws =
     find_col [''technique id'', ''external id'', ''id'', ''external_id''] (sheet_header ws)"

definition find_col_name :: "sheet \<Rightarrow> nat option" where
  "find_col_name ws = find_col [''technique name'', ''technique'', ''name''] (sheet_header ws)"

definition find_col_desc :: "sheet \<Rightarrow> nat option" where
  "find_col_desc ws = find_col [''description'', ''technique description''] (sheet_header ws)"

definition find_col_tac :: "sheet \<Rightarrow> nat option" where
  "find_col_tac ws = find_col [''tactics'', ''tactic'', ''domain tactics''] (sheet_header ws)"

text \<open>\<open>not col\<close> for a column number or \<open>None\<close>.\<close>

definition not_col :: "nat option \<Rightarrow> bool" where
  "not_col col = (case col of None \<Rightarrow> True | Some c \<Rightarrow> c = 0)"

definition xlsx_sheet :: "(nat \<Rightarrow> string) \<Rightarrow> sheet \<Rightarrow> ttp list \<Rightarrow> nat \<Rightarrow> ttp list \<times> nat py" where
  "xlsx_sheet clock ws tbl updated =
     (if not_col (find_col_id ws) \<or> not_col (find_col_name ws) \<or> not_col (find_col_tac ws)
      then (tbl, Return updated)
      else xlsx_rows clock (the (find_col_id ws)) (the (find_col_name ws))
             (if not_col (find_col_desc ws) then None else find_col_desc ws)
             (the (find_col_tac ws)) (data_rows ws) tbl updated)"

fun xlsx_sheets :: "(nat \<Rightarrow> string) \<Rightarrow> sheet list \<Rightarrow> ttp list \<Rightarrow> nat \<Rightarrow> ttp list \<times> nat py" where
  "xlsx_sheets clock [] tbl updated = (tbl, Return updated)"
| "xlsx_sheets clock (ws # wss) tbl updated =
     (case xlsx_sheet clock ws tbl updated of
        (tbl', Raise e) \<Rightarrow> (tbl', Raise e)
      | (tbl', Return updated') \<Rightarrow> xlsx_sheets clock wss tbl' updated')"

text \<open>
  What is at a candidate path: nothing, a file that \<open>json.load\<close> or
  \<open>openpyxl.load_workbook\<close> rejects, or a document.
\<close>

datatype json_file = JsonMissing | JsonInvalid | JsonDoc json_doc

datatype xlsx_file = XlsxMissing | XlsxInvalid | Workbook "sheet list"

text \<open>\<open>_try_enrich_from_xlsx\<close>; \<open>openpyxl\<close> tells whether the module can be imported.\<close>

definition try_enrich_from_xlsx :: "bool \<Rightarrow> (nat \<Rightarrow> string) \<Rightarrow> xlsx_file \<Rightarrow> conn \<Rightarrow> conn \<times> nat py" where
  "try_enrich_from_xlsx openpyxl clock file db =
     (if \<not> openpyxl then (db, Return 0)
      else case file of
        XlsxMissing \<Rightarrow> (db, Return 0)
      | XlsxInvalid \<Rightarrow> (db, Raise LoadError)
      | Workbook wss \<Rightarrow> finish db (xlsx_sheets clock wss (ttps db) 0))"

section \<open>The import request\<close>

text \<open>
  The files at the candidate paths, each with the clock readings its import takes, and
  the state of the Python installation.
\<close>

record env =
  json_candidates :: "(json_file \<times> string) list"
  xlsx_candidates :: "(xlsx_file \<times> (nat \<Rightarrow> string)) list"
  have_openpyxl :: bool

text \<open>
  The two loops of \<open>admin_load_mitre\<close>: a missing path is passed over, an exception of
  \<open>_load_json\<close> or of the import is swallowed by \<open>except Exception: pass\<close>, and only a
  returned count is added to \<open>total\<close>, here \<open>tot\<close>.
\<close>

fun load_json_candidates :: "(json_file \<times> string) list \<Rightarrow> conn \<Rightarrow> nat \<Rightarrow> conn \<times> nat" where
  "load_json_candidates [] db tot = (db, tot)"
| "load_json_candidates ((JsonMissing, now) # ps) db tot = load_json_candidates ps db tot"
| "load_json_candidates ((JsonInvalid, now) # ps) db tot = load_json_candidates ps db tot"
| "load_json_candidates ((JsonDoc js, now) # ps) db tot =
     (case try_import_from_stix_or_layer now js db of
        (db', Return n) \<Rightarrow> load_json_candidates ps db' (tot + n)
      | (db', Raise e) \<Rightarrow> load_json_candidates ps db' tot)"

fun load_xlsx_candidates :: "bool \<Rightarrow> (xlsx_file \<times> (nat \<Rightarrow> string)) list \<Rightarrow> conn \<Rightarrow> nat \<Rightarrow> conn \<times> nat" where
  "load_xlsx_candidates openpyxl [] db tot = (db, tot)"
| "load_xlsx_candidates openpyxl ((XlsxMissing, clock) # ps) db tot =
     load_xlsx_candidates openpyxl ps db tot"
| "load_xlsx_candidates openpyxl ((file, clock) # ps) db tot =
     (case try_enrich_from_xlsx openpyxl clock file db of
        (db', Return n) \<Rightarrow> load_xlsx_candidates openpyxl ps db' (tot + n)
      | (db', Raise e) \<Rightarrow> load_xlsx_candidates openpyxl ps db' tot)"

text \<open>\<open>admin_load_mitre\<close>: the connection after the handler, and \<open>total\<close>.\<close>

definition admin_load_mitre :: "env \<Rightarrow> conn \<Rightarrow> conn \<times> nat" where
  "admin_load_mitre e db =
     (case load_json_candidates (json_candidates e) db 0 of
        (db1, total1) \<Rightarrow>
          (case load_xlsx_candidates (have_openpyxl e) (xlsx_candidates e) db1 total1 of
             (db2, tot) \<Rightarrow>
               if tot > 0 then (set_setting ''mitre_loaded'' ''1'' db2, tot)
               else (db2, tot)))"

text \<open>The flag as \<open>admin\<close> reads it: \<open>get_setting("mitre_loaded", "0") == "1"\<close>.\<close>

definition mitre_loaded :: "conn \<Rightarrow> bool" where
  "mitre_loaded db = (get_setting db ''mitre_loaded'' ''0'' = ''1'')"

text \<open>
  One request: the connection is opened, the \<open>before_request\<close> hooks \<open>ensure_db\<close>
  (which creates the tables only if they do not exist) and \<open>maybe_seed\<close> run, then the
  handler, then \<open>close_db\<close>. Only
  \<open>admin_load_mitre\<close> writes to \<open>ttps\<close> or \<open>settings\<close>; every other handler leaves
  both as they are. \<open>seed_now\<close> is the clock reading of \<open>seed_minimal_ttps\<close>.
\<close>

datatype request = LoadMitre env | OtherRequest

definition handle :: "request \<Rightarrow> conn \<Rightarrow> conn" where
  "handle req db = (case req of LoadMitre e \<Rightarrow> fst (admin_load_mitre e db) | OtherRequest \<Rightarrow> db)"

definition serve :: "string \<Rightarrow> request \<Rightarrow> conn \<Rightarrow> conn" where
  "serve seed_now req db = close_db (handle req (seed_minimal_ttps seed_now (get_db db)))"

fun serve_all :: "(string \<times> request) list \<Rightarrow> conn \<Rightarrow> conn" where
  "serve_all [] db = db"
| "serve_all ((seed_now, req) # reqs) db = serve_all reqs (serve seed_now req db)"

text \<open>The database file as \<open>ensure_db\<close> first creates it: empty tables.\<close>

definition fresh_db :: conn where
  "fresh_db = \<lparr>ttps = [], settings = Map.empty, saved_ttps = [], saved_settings = Map.empty\<rparr>"

section \<open>Auxiliary notions\<close>

text \<open>A property of tables that holds of both the connection's view and the committed table.\<close>

definition both :: "(ttp list \<Rightarrow> bool) \<Rightarrow> conn \<Rightarrow> bool" where
  "both P db = (P (ttps db) \<and> P (saved_ttps db))"

text \<open>
  The settings of a connection are those of \<open>db0\<close>, and its committed settings are
  either the committed settings of \<open>db0\<close> or settings of \<open>db0\<close> that were committed since.
\<close>

definition same_settings :: "conn \<Rightarrow> conn \<Rightarrow> bool" where
  "same_settings db0 db =
     (settings db = settings db0
      \<and> (saved_settings db = saved_settings db0 \<or> saved_settings db = settings db0))"

text \<open>
  The rows of \<open>t\<close> are still rows of \<open>t'\<close>: the pairs of \<open>t\<close>, in order, begin the
  pairs of \<open>t'\<close>.
\<close>

definition keeps_rows :: "ttp list \<Rightarrow> ttp list \<Rightarrow> bool" where
  "keeps_rows t t' = prefix (keys_of t) (keys_of t')"

text \<open>A clock that reads \<open>t\<close> at every call, for the examples.\<close>

definition fixed_clock :: "string \<Rightarrow> nat \<Rightarrow> string" where
  "fixed_clock t k = t"







text \<open>
  A candidate of the spreadsheet pass, \<open>(tid, tac, nm, ds)\<close>: what one recognised token
  of one row passes to the two statements. The pass over a workbook applies a list of
  candidates that depends on the workbook alone, not on the table.
\<close>

type_synonym cand = "string \<times> string \<times> string \<times> string"

definition cand_key :: "cand \<Rightarrow> string \<times> string" where
  "cand_key c = (case c of (tid, tac, nm, ds) \<Rightarrow> (tid, tac))"

definition enrich_by :: "cand \<Rightarrow> ttp \<Rightarrow> ttp" where
  "enrich_by c r = (case c of (tid, tac, nm, ds) \<Rightarrow> enrich_row nm ds tid tac r)"

definition apply_cand :: "string \<Rightarrow> cand \<Rightarrow> ttp list \<Rightarrow> ttp list" where
  "apply_cand now c t = (case c of (tid, tac, nm, ds) \<Rightarrow> xlsx_apply now tid tac nm ds t)"

fun apply_cands :: "(nat \<Rightarrow> string) \<Rightarrow> nat \<Rightarrow> cand list \<Rightarrow> ttp list \<Rightarrow> ttp list" where
  "apply_cands clock k [] t = t"
| "apply_cands clock k (c # cs) t = apply_cands clock (Suc k) cs (apply_cand (clock k) c t)"

definition enrich_all :: "cand list \<Rightarrow> ttp \<Rightarrow> ttp" where
  "enrich_all cs r = fold enrich_by cs r"

text \<open>The \<open>CASE\<close> of the update on one column: an unfilled value takes the incoming one.\<close>

definition fill :: "(string option \<Rightarrow> bool) \<Rightarrow> string \<Rightarrow> string option \<Rightarrow> string option" where
  "fill U n s = (if U s then Some n else s)"

definition unfilled_name :: "string \<Rightarrow> string option \<Rightarrow> bool" where
  "unfilled_name tid s = (s = None \<or> s = Some [] \<or> s = Some tid)"

definition unfilled_description :: "string option \<Rightarrow> bool" where
  "unfilled_description s = (s = None \<or> s = Some [])"

text \<open>
  A loop has the plan \<open>cs\<close>, \<open>e\<close> when, from every table and count, it applies the
  candidates \<open>cs\<close> and then returns the count increased by their number, or raises \<open>e\<close>.
\<close>

definition ret :: "exn option \<Rightarrow> nat \<Rightarrow> nat py" where
  "ret e m = (case e of None \<Rightarrow> Return m | Some ex \<Rightarrow> Raise ex)"

definition plan_of ::
  "((nat \<Rightarrow> string) \<Rightarrow> ttp list \<Rightarrow> nat \<Rightarrow> ttp list \<times> nat py) \<Rightarrow> cand list \<Rightarrow> exn option \<Rightarrow> bool" where
  "plan_of F cs e =
     (\<forall>clock t n. F clock t n = (apply_cands clock n cs t, ret e (n + length cs)))"

definition seq ::
  "((nat \<Rightarrow> string) \<Rightarrow> ttp list \<Rightarrow> nat \<Rightarrow> ttp list \<times> nat py)
   \<Rightarrow> ((nat \<Rightarrow> string) \<Rightarrow> ttp list \<Rightarrow> nat \<Rightarrow> ttp list \<times> nat py)
   \<Rightarrow> (nat \<Rightarrow> string) \<Rightarrow> ttp list \<Rightarrow> nat \<Rightarrow> ttp list \<times> nat py" where
  "seq F G clock t n =
     (case F clock t n of (t', Raise ex) \<Rightarrow> (t', Raise ex) | (t', Return n') \<Rightarrow> G clock t' n')"

section \<open>Properties of the enrichment update\<close>

lemma enrich_row_key [simp]: "row_key (enrich_row nm ds tid tac r) = row_key r"
  by (simp add: enrich_row_def row_key_def)

lemma keys_of_update_enrich [simp]: "keys_of (update_enrich nm ds tid tac tbl) = keys_of tbl"
  by (simp add: keys_of_def update_enrich_def)

text \<open>
  Claim C1, as the code has it. For a stored row and an incoming candidate with the row's
  own technique id and tactic: the stored name changes only if it was NULL, empty or equal
  to the technique id, and then it becomes the incoming name whatever that is; a stored
  name that is non-empty and differs from the technique id stays. The stored description
  changes only if it was NULL or empty, and then it becomes the incoming description; a
  non-empty stored description stays.
\<close>

theorem enrich_only_unfilled:
  fixes r :: ttp and nm ds :: string
  defines "r' \<equiv> enrich_row nm ds (technique_id r) (tactic_id r) r"
  shows "(name r' \<noteq> name r \<longrightarrow>
            (name r = None \<or> name r = Some [] \<or> name r = Some (technique_id r))
            \<and> name r' = Some nm)
       \<and> (name r = Some s \<and> s \<noteq> [] \<and> s \<noteq> technique_id r \<longrightarrow> name r' = Some s)
       \<and> (description r' \<noteq> description r \<longrightarrow>
            (description r = None \<or> description r = Some []) \<and> description r' = Some ds)
       \<and> (description r = Some d \<and> d \<noteq> [] \<longrightarrow> description r' = Some d)
       \<and> technique_id r' = technique_id r \<and> tactic_id r' = tactic_id r
       \<and> refs r' = refs r \<and> created_at r' = created_at r"
  unfolding r'_def
  by (simp add: enrich_row_def enrich_name_def enrich_description_def)

theorem enrich_only_unfilled_witness:
  "name (enrich_row ''Remote Services'' ''d2'' ''T1021'' ''lateral-movement''
      \<lparr>technique_id = ''T1021'', tactic_id = ''lateral-movement'', name = Some ''T1021'',
       description = Some ''RDP'', refs = [], created_at = ''t0''\<rparr>) = Some ''Remote Services''
   \<and> description (enrich_row ''Remote Services'' ''d2'' ''T1021'' ''lateral-movement''
      \<lparr>technique_id = ''T1021'', tactic_id = ''lateral-movement'', name = Some ''T1021'',
       description = Some ''RDP'', refs = [], created_at = ''t0''\<rparr>) = Some ''RDP''"
  using enrich_only_unfilled [where r =
      "\<lparr>technique_id = ''T1021'', tactic_id = ''lateral-movement'', name = Some ''T1021'',
        description = Some ''RDP'', refs = [], created_at = ''t0''\<rparr>"
      and nm = "''Remote Services''" and ds = "''d2''" and s = "''RDP''" and d = "''RDP''"]
  by (simp add: enrich_row_def enrich_name_def enrich_description_def)

text \<open>
  Claim C1 as stated fails: a stored placeholder name (equal to the technique id) is
  replaced by an empty incoming name. The layer import stores \<open>T1059\<close> under
  \<open>execution\<close> with the name \<open>T1059\<close>; a spreadsheet row for the same pair whose name
  cell is empty then leaves the stored name empty.
\<close>

theorem placeholder_overwritten_by_empty_name:
  "map name (fst (import_layer ''t1''
        [LayerTechnique \<lparr>techniqueID = Some ''T1059'', layer_tactic = Some ''execution''\<rparr>]
        [] 0)) = [Some ''T1059'']
   \<and> map name (fst (xlsx_row (fixed_clock ''t2'') 1 2 None 3
        [Text ''T1059'', NoValue, Text ''Execution'']
        (fst (import_layer ''t1''
           [LayerTechnique \<lparr>techniqueID = Some ''T1059'', layer_tactic = Some ''execution''\<rparr>]
           [] 0)) 0)) = [Some []]
   \<and> name (enrich_row [] [] ''T1059'' ''execution''
        \<lparr>technique_id = ''T1059'', tactic_id = ''execution'', name = Some ''T1059'',
         description = Some [], refs = [], created_at = ''t1''\<rparr>) = Some []"
  by (simp add: Let_def or_empty_def lower_def lower_char_def insert_or_ignore_def keys_of_def
      row_key_def xlsx_row_def str_or_empty_strip_def or_empty_strip_def cell_value_def
      tactic_tokens_def tactic_token_def startswith_def strip_def isspace_def
      in_TACTIC_TITLES_def TACTIC_TITLES_def xlsx_apply_def update_enrich_def enrich_row_def
      enrich_name_def enrich_description_def fixed_clock_def)

section \<open>What every statement preserves, every import preserves\<close>

text \<open>
  The imports change the table only through \<open>insert_or_ignore\<close> and \<open>update_enrich\<close>,
  so a property of tables that these two preserve is preserved by every loop built on them.
\<close>


lemma insert_all_pres:
  assumes "\<And>r t. P t \<Longrightarrow> P (insert_or_ignore r t)" and "P tbl"
  shows "P (insert_all rs tbl)"
  using assms(2) by (induction rs arbitrary: tbl) (simp_all add: assms(1))

lemma import_stix_pres:
  assumes "\<And>r t. P t \<Longrightarrow> P (insert_or_ignore r t)" and "P tbl"
  shows "P (fst (import_stix now objs tbl n))"
  using assms(2)
proof (induction now objs tbl n rule: import_stix.induct)
  case (3 now obj objs tbl inserted)
  then show ?case by (simp add: insert_all_pres [where P = P, OF assms(1)])
qed simp_all

lemma import_layer_pres:
  assumes "\<And>r t. P t \<Longrightarrow> P (insert_or_ignore r t)" and "P tbl"
  shows "P (fst (import_layer now ts tbl n))"
  using assms(2)
proof (induction now ts tbl n rule: import_layer.induct)
  case (3 now t ts tbl inserted)
  then show ?case by (simp add: Let_def assms(1))
qed simp_all

lemma xlsx_apply_pres:
  assumes "\<And>r t. P t \<Longrightarrow> P (insert_or_ignore r t)"
    and "\<And>nm ds tid tac t. P t \<Longrightarrow> P (update_enrich nm ds tid tac t)" and "P tbl"
  shows "P (xlsx_apply now tid tac nm ds tbl)"
  by (simp add: xlsx_apply_def assms)

lemma xlsx_tokens_pres:
  assumes "\<And>r t. P t \<Longrightarrow> P (insert_or_ignore r t)"
    and "\<And>nm ds tid tac t. P t \<Longrightarrow> P (update_enrich nm ds tid tac t)" and "P tbl"
  shows "P (fst (xlsx_tokens clock tid nm ds tacs tbl n))"
  using assms(3)
proof (induction tacs arbitrary: tbl n)
  case (Cons tac tacs)
  then show ?case
    by (simp add: xlsx_apply_pres [where P = P, OF assms(1) assms(2)])
qed simp

lemma xlsx_row_pres:
  assumes "\<And>r t. P t \<Longrightarrow> P (insert_or_ignore r t)"
    and "\<And>nm ds tid tac t. P t \<Longrightarrow> P (update_enrich nm ds tid tac t)" and "P tbl"
  shows "P (fst (xlsx_row clock ci cn cd ct row tbl n))"
proof -
  have tok: "\<And>tid nm ds tacs. P (fst (xlsx_tokens clock tid nm ds tacs tbl n))"
    by (rule xlsx_tokens_pres [where P = P, OF assms])
  show ?thesis
    using assms(3) tok
    by (auto simp: xlsx_row_def Let_def split: py.splits option.splits)
qed

lemma xlsx_rows_pres:
  assumes "\<And>r t. P t \<Longrightarrow> P (insert_or_ignore r t)"
    and "\<And>nm ds tid tac t. P t \<Longrightarrow> P (update_enrich nm ds tid tac t)" and "P tbl"
  shows "P (fst (xlsx_rows clock ci cn cd ct rows tbl n))"
  using assms(3)
proof (induction rows arbitrary: tbl n)
  case (Cons row rows)
  have "P (fst (xlsx_row clock ci cn cd ct row tbl n))"
    by (rule xlsx_row_pres [where P = P, OF assms(1) assms(2) Cons.prems])
  then show ?case
    using Cons.IH by (auto split: prod.splits py.splits)
qed simp

lemma xlsx_sheet_pres:
  assumes "\<And>r t. P t \<Longrightarrow> P (insert_or_ignore r t)"
    and "\<And>nm ds tid tac t. P t \<Longrightarrow> P (update_enrich nm ds tid tac t)" and "P tbl"
  shows "P (fst (xlsx_sheet clock ws tbl n))"
  using assms(3) xlsx_rows_pres [where P = P, OF assms]
  by (simp add: xlsx_sheet_def)

lemma xlsx_sheets_pres:
  assumes "\<And>r t. P t \<Longrightarrow> P (insert_or_ignore r t)"
    and "\<And>nm ds tid tac t. P t \<Longrightarrow> P (update_enrich nm ds tid tac t)" and "P tbl"
  shows "P (fst (xlsx_sheets clock wss tbl n))"
  using assms(3)
proof (induction wss arbitrary: tbl n)
  case (Cons ws wss)
  have "P (fst (xlsx_sheet clock ws tbl n))"
    by (rule xlsx_sheet_pres [where P = P, OF assms(1) assms(2) Cons.prems])
  then show ?case
    using Cons.IH by (auto split: prod.splits py.splits)
qed simp


lemma finish_pres:
  assumes "P (fst res)" and "both P db"
  shows "both P (fst (finish db res))"
  using assms by (cases res) (auto simp: finish_def both_def commit_def split: py.splits)

lemma try_import_pres:
  assumes "\<And>r t. P t \<Longrightarrow> P (insert_or_ignore r t)" and "both P db"
  shows "both P (fst (try_import_from_stix_or_layer now js db))"
proof (cases js)
  case (Bundle objs)
  have pt: "P (ttps db)" using assms(2) by (simp add: both_def)
  have "P (fst (import_stix now objs (ttps db) 0))"
    by (rule import_stix_pres [where P = P, OF assms(1) pt])
  then show ?thesis using Bundle assms(2)
    by (simp add: try_import_from_stix_or_layer_def finish_pres)
next
  case (Layer ts)
  have pt: "P (ttps db)" using assms(2) by (simp add: both_def)
  have "P (fst (import_layer now ts (ttps db) 0))"
    by (rule import_layer_pres [where P = P, OF assms(1) pt])
  then show ?thesis using Layer assms(2)
    by (simp add: try_import_from_stix_or_layer_def finish_pres)
next
  case Unrecognised
  then show ?thesis using assms(2) by (simp add: try_import_from_stix_or_layer_def)
qed

lemma try_enrich_pres:
  assumes "\<And>r t. P t \<Longrightarrow> P (insert_or_ignore r t)"
    and "\<And>nm ds tid tac t. P t \<Longrightarrow> P (update_enrich nm ds tid tac t)" and "both P db"
  shows "both P (fst (try_enrich_from_xlsx openpyxl clock f db))"
proof (cases f)
  case (Workbook wss)
  have pt: "P (ttps db)" using assms(3) by (simp add: both_def)
  have "P (fst (xlsx_sheets clock wss (ttps db) 0))"
    by (rule xlsx_sheets_pres [where P = P, OF assms(1) assms(2) pt])
  then show ?thesis using Workbook assms(3)
    by (simp add: try_enrich_from_xlsx_def finish_pres)
qed (use assms(3) in \<open>simp_all add: try_enrich_from_xlsx_def\<close>)

lemma load_json_candidates_pres:
  assumes "\<And>r t. P t \<Longrightarrow> P (insert_or_ignore r t)" and "both P db"
  shows "both P (fst (load_json_candidates ps db tot))"
  using assms(2)
proof (induction ps db tot rule: load_json_candidates.induct)
  case (4 js now ps db tot)
  have "both P (fst (try_import_from_stix_or_layer now js db))"
    by (rule try_import_pres [where P = P, OF assms(1) "4.prems"])
  then show ?case
    using "4.IH" by (auto split: prod.splits py.splits)
qed simp_all

lemma load_xlsx_candidates_Cons:
  "load_xlsx_candidates openpyxl ((f, clock) # ps) db tot =
     (if f = XlsxMissing then load_xlsx_candidates openpyxl ps db tot
      else case try_enrich_from_xlsx openpyxl clock f db of
             (db', Return n) \<Rightarrow> load_xlsx_candidates openpyxl ps db' (tot + n)
           | (db', Raise e) \<Rightarrow> load_xlsx_candidates openpyxl ps db' tot)"
  by (cases f) simp_all

lemma load_xlsx_candidates_pres:
  assumes "\<And>r t. P t \<Longrightarrow> P (insert_or_ignore r t)"
    and "\<And>nm ds tid tac t. P t \<Longrightarrow> P (update_enrich nm ds tid tac t)" and "both P db"
  shows "both P (fst (load_xlsx_candidates openpyxl ps db tot))"
  using assms(3)
proof (induction ps arbitrary: db tot)
  case Nil
  then show ?case by simp
next
  case (Cons p ps)
  obtain f clock where p: "p = (f, clock)" by (cases p)
  have "both P (fst (try_enrich_from_xlsx openpyxl clock f db))"
    by (rule try_enrich_pres [where P = P, OF assms(1) assms(2) Cons.prems])
  then show ?case
    using Cons.IH Cons.prems
    by (auto simp: p load_xlsx_candidates_Cons split: prod.splits py.splits)
qed

lemma set_setting_pres: "both P db \<Longrightarrow> both P (set_setting k v db)"
  by (simp add: both_def set_setting_def commit_def)

lemma admin_load_mitre_pres:
  assumes "\<And>r t. P t \<Longrightarrow> P (insert_or_ignore r t)"
    and "\<And>nm ds tid tac t. P t \<Longrightarrow> P (update_enrich nm ds tid tac t)" and "both P db"
  shows "both P (fst (admin_load_mitre e db))"
proof -
  have 1: "both P (fst (load_json_candidates (json_candidates e) db 0))"
    by (rule load_json_candidates_pres [where P = P, OF assms(1) assms(3)])
  have 2: "both P (fst (load_xlsx_candidates (have_openpyxl e) (xlsx_candidates e)
      (fst (load_json_candidates (json_candidates e) db 0))
      (snd (load_json_candidates (json_candidates e) db 0))))"
    by (rule load_xlsx_candidates_pres [where P = P, OF assms(1) assms(2) 1])
  show ?thesis
    using 2 by (auto simp: admin_load_mitre_def set_setting_pres split: prod.splits)
qed

lemma handle_pres:
  assumes "\<And>r t. P t \<Longrightarrow> P (insert_or_ignore r t)"
    and "\<And>nm ds tid tac t. P t \<Longrightarrow> P (update_enrich nm ds tid tac t)" and "both P db"
  shows "both P (handle req db)"
  using assms(3) admin_load_mitre_pres [where P = P, OF assms(1) assms(2)]
  by (cases req) (simp_all add: handle_def)

section \<open>Uniqueness of pairs, the flag, and seeding\<close>


lemma distinct_insert_or_ignore:
  "distinct (keys_of tbl) \<Longrightarrow> distinct (keys_of (insert_or_ignore r tbl))"
  by (simp add: insert_or_ignore_def keys_of_def)

lemma distinct_update_enrich:
  "distinct (keys_of tbl) \<Longrightarrow> distinct (keys_of (update_enrich nm ds tid tac tbl))"
  by simp

lemma seed_minimal_ttps_pres:
  assumes "\<And>r t. P t \<Longrightarrow> P (insert_or_ignore r t)" and "both P db"
  shows "both P (seed_minimal_ttps now db)"
proof -
  have pt: "P (ttps db)" using assms(2) by (simp add: both_def)
  have "P (insert_all (DEFAULT_TTPS now) (ttps db))"
    by (rule insert_all_pres [where P = P, OF assms(1) pt])
  then show ?thesis
    using assms(2) by (auto simp: seed_minimal_ttps_def both_def commit_def)
qed

lemma get_db_pres: "P (saved_ttps db) \<Longrightarrow> both P (get_db db)"
  by (simp add: both_def get_db_def)

lemma close_db_pres: "both P db \<Longrightarrow> both P (close_db db)"
  by (simp add: both_def close_db_def)

lemma serve_pres:
  assumes "\<And>r t. P t \<Longrightarrow> P (insert_or_ignore r t)"
    and "\<And>nm ds tid tac t. P t \<Longrightarrow> P (update_enrich nm ds tid tac t)"
    and "P (saved_ttps db)"
  shows "both P (serve now req db)"
proof -
  have 1: "both P (get_db db)" using assms(3) by (rule get_db_pres)
  have 2: "both P (seed_minimal_ttps now (get_db db))"
    by (rule seed_minimal_ttps_pres [where P = P, OF assms(1) 1])
  have "both P (handle req (seed_minimal_ttps now (get_db db)))"
    by (rule handle_pres [where P = P, OF assms(1) assms(2) 2])
  then show ?thesis by (simp add: serve_def close_db_pres)
qed

lemma serve_all_pres:
  assumes "\<And>r t. P t \<Longrightarrow> P (insert_or_ignore r t)"
    and "\<And>nm ds tid tac t. P t \<Longrightarrow> P (update_enrich nm ds tid tac t)"
    and "both P db"
  shows "both P (serve_all reqs db)"
  using assms(3)
proof (induction reqs arbitrary: db)
  case (Cons a reqs)
  obtain now req where a: "a = (now, req)" by (cases a)
  have sv: "P (saved_ttps db)" using Cons.prems by (simp add: both_def)
  have "both P (serve now req db)"
    by (rule serve_pres [where P = P, OF assms(1) assms(2) sv])
  then show ?case using Cons.IH by (simp add: a)
qed simp

lemma both_fresh_db: "P [] \<Longrightarrow> both P fresh_db"
  by (simp add: both_def fresh_db_def)

text \<open>
  Claim C4. After any sequence of requests on a new database, whatever files each import
  request finds, no two rows of the catalog have the same pair of technique id and
  tactic, in the connection's view and in the committed table. Seeding, the bundle
  import, the layer import and the spreadsheet pass each keep the pairs of any table
  distinct. Inserting a row whose pair is present changes nothing, and the spreadsheet
  pass on a present pair adds no row. One technique id inserted under two different
  tactics, both new, gives two rows.
\<close>

theorem unique_pairs:
  "distinct (keys_of (ttps (serve_all reqs fresh_db)))
   \<and> distinct (keys_of (saved_ttps (serve_all reqs fresh_db)))
   \<and> (distinct (keys_of tbl) \<longrightarrow>
        distinct (keys_of (insert_all (DEFAULT_TTPS now) tbl))
        \<and> distinct (keys_of (fst (import_stix now objs tbl n)))
        \<and> distinct (keys_of (fst (import_layer now ts tbl n)))
        \<and> distinct (keys_of (fst (xlsx_sheets clock wss tbl n))))
   \<and> (row_key r \<in> set (keys_of tbl) \<longrightarrow>
        insert_or_ignore r tbl = tbl
        \<and> keys_of (xlsx_apply now (technique_id r) (tactic_id r) nm ds tbl) = keys_of tbl)
   \<and> (tac1 \<noteq> tac2 \<and> (tid, tac1) \<notin> set (keys_of tbl) \<and> (tid, tac2) \<notin> set (keys_of tbl) \<longrightarrow>
        keys_of (insert_or_ignore (r2\<lparr>technique_id := tid, tactic_id := tac2\<rparr>)
                  (insert_or_ignore (r1\<lparr>technique_id := tid, tactic_id := tac1\<rparr>) tbl))
        = keys_of tbl @ [(tid, tac1), (tid, tac2)])"
proof -
  let ?P = "\<lambda>t. distinct (keys_of t)"
  have ins: "\<And>r t. ?P t \<Longrightarrow> ?P (insert_or_ignore r t)"
    by (rule distinct_insert_or_ignore)
  have upd: "\<And>nm ds tid tac t. ?P t \<Longrightarrow> ?P (update_enrich nm ds tid tac t)"
    by simp
  have fr: "both ?P fresh_db" by (simp add: both_fresh_db keys_of_def)
  have "both ?P (serve_all reqs fresh_db)"
    by (rule serve_all_pres [where P = ?P, OF ins upd fr])
  then have a: "distinct (keys_of (ttps (serve_all reqs fresh_db)))
      \<and> distinct (keys_of (saved_ttps (serve_all reqs fresh_db)))"
    by (simp add: both_def)
  have b: "distinct (keys_of tbl) \<longrightarrow>
        distinct (keys_of (insert_all (DEFAULT_TTPS now) tbl))
        \<and> distinct (keys_of (fst (import_stix now objs tbl n)))
        \<and> distinct (keys_of (fst (import_layer now ts tbl n)))
        \<and> distinct (keys_of (fst (xlsx_sheets clock wss tbl n)))"
    using insert_all_pres [where P = ?P, OF ins] import_stix_pres [where P = ?P, OF ins]
      import_layer_pres [where P = ?P, OF ins] xlsx_sheets_pres [where P = ?P, OF ins upd]
    by blast
  have c: "row_key r \<in> set (keys_of tbl) \<longrightarrow>
        insert_or_ignore r tbl = tbl
        \<and> keys_of (xlsx_apply now (technique_id r) (tactic_id r) nm ds tbl) = keys_of tbl"
    by (simp add: insert_or_ignore_def xlsx_apply_def row_key_def)
  have d: "tac1 \<noteq> tac2 \<and> (tid, tac1) \<notin> set (keys_of tbl) \<and> (tid, tac2) \<notin> set (keys_of tbl) \<longrightarrow>
        keys_of (insert_or_ignore (r2\<lparr>technique_id := tid, tactic_id := tac2\<rparr>)
                  (insert_or_ignore (r1\<lparr>technique_id := tid, tactic_id := tac1\<rparr>) tbl))
        = keys_of tbl @ [(tid, tac1), (tid, tac2)]"
    by (simp add: insert_or_ignore_def row_key_def keys_of_def)
  show ?thesis using a b c d by blast
qed


lemma same_settings_refl: "same_settings db db"
  by (simp add: same_settings_def)

lemma finish_same_settings:
  "same_settings db0 db \<Longrightarrow> same_settings db0 (fst (finish db res))"
  by (cases res) (auto simp: finish_def same_settings_def commit_def split: py.splits)

lemma try_import_same_settings:
  "same_settings db0 db \<Longrightarrow> same_settings db0 (fst (try_import_from_stix_or_layer now js db))"
  by (cases js) (simp_all add: try_import_from_stix_or_layer_def finish_same_settings)

lemma try_enrich_same_settings:
  "same_settings db0 db \<Longrightarrow> same_settings db0 (fst (try_enrich_from_xlsx openpyxl clock f db))"
  by (cases f) (simp_all add: try_enrich_from_xlsx_def finish_same_settings)

lemma load_json_candidates_same_settings:
  "same_settings db0 db \<Longrightarrow> same_settings db0 (fst (load_json_candidates ps db tot))"
proof (induction ps db tot rule: load_json_candidates.induct)
  case (4 js now ps db tot)
  have "same_settings db0 (fst (try_import_from_stix_or_layer now js db))"
    using "4.prems" by (rule try_import_same_settings)
  then show ?case
    using "4.IH" by (auto split: prod.splits py.splits)
qed simp_all

lemma load_xlsx_candidates_same_settings:
  "same_settings db0 db \<Longrightarrow> same_settings db0 (fst (load_xlsx_candidates openpyxl ps db tot))"
proof (induction ps arbitrary: db tot)
  case (Cons p ps)
  obtain f clock where p: "p = (f, clock)" by (cases p)
  have "same_settings db0 (fst (try_enrich_from_xlsx openpyxl clock f db))"
    using Cons.prems by (rule try_enrich_same_settings)
  then show ?case
    using Cons.IH Cons.prems
    by (auto simp: p load_xlsx_candidates_Cons split: prod.splits py.splits)
qed simp

lemma mitre_loaded_iff: "mitre_loaded db = (settings db ''mitre_loaded'' = Some ''1'')"
  by (simp add: mitre_loaded_def get_setting_def split: option.splits)

lemma admin_load_mitre_settings:
  "(0 < snd (admin_load_mitre e db) \<longrightarrow>
      settings (fst (admin_load_mitre e db)) = (settings db)(''mitre_loaded'' \<mapsto> ''1'')
      \<and> saved_settings (fst (admin_load_mitre e db)) = (settings db)(''mitre_loaded'' \<mapsto> ''1''))
   \<and> (snd (admin_load_mitre e db) = 0 \<longrightarrow> same_settings db (fst (admin_load_mitre e db)))"
proof -
  let ?j = "load_json_candidates (json_candidates e) db 0"
  let ?x = "load_xlsx_candidates (have_openpyxl e) (xlsx_candidates e) (fst ?j) (snd ?j)"
  have "same_settings db (fst ?j)"
    by (rule load_json_candidates_same_settings [OF same_settings_refl])
  then have "same_settings db (fst ?x)"
    by (rule load_xlsx_candidates_same_settings)
  then show ?thesis
    by (auto simp: admin_load_mitre_def set_setting_def commit_def same_settings_def
        split: prod.splits)
qed

lemma seed_minimal_ttps_settings:
  "settings (seed_minimal_ttps now db) = settings db"
  by (simp add: seed_minimal_ttps_def commit_def)

lemma seed_get_db_saved_settings:
  "saved_settings (seed_minimal_ttps now (get_db db)) = saved_settings db"
  by (simp add: seed_minimal_ttps_def commit_def get_db_def)

lemma seed_get_db_settings:
  "settings (seed_minimal_ttps now (get_db db)) = saved_settings db"
  by (simp add: seed_minimal_ttps_def commit_def get_db_def)

lemma serve_settings: "settings (serve now req db) = saved_settings (serve now req db)"
  by (simp add: serve_def close_db_def)

lemma serve_saved_settings:
  "saved_settings (serve now req db) =
     (case req of
        OtherRequest \<Rightarrow> saved_settings db
      | LoadMitre e \<Rightarrow>
          if 0 < snd (admin_load_mitre e (seed_minimal_ttps now (get_db db)))
          then (saved_settings db)(''mitre_loaded'' \<mapsto> ''1'')
          else saved_settings db)"
proof (cases req)
  case OtherRequest
  then show ?thesis
    by (simp add: serve_def handle_def close_db_def seed_get_db_saved_settings)
next
  case (LoadMitre e)
  let ?d = "seed_minimal_ttps now (get_db db)"
  show ?thesis
    using admin_load_mitre_settings [of e ?d]
    by (cases "snd (admin_load_mitre e ?d) = 0")
      (auto simp: LoadMitre serve_def handle_def close_db_def same_settings_def
         seed_get_db_settings seed_get_db_saved_settings)
qed

lemma serve_all_flag:
  "saved_settings db ''mitre_loaded'' = Some ''1''
   \<Longrightarrow> saved_settings (serve_all reqs db) ''mitre_loaded'' = Some ''1''"
proof (induction reqs arbitrary: db)
  case (Cons a reqs)
  obtain now req where a: "a = (now, req)" by (cases a)
  have "saved_settings (serve now req db) ''mitre_loaded'' = Some ''1''"
    using Cons.prems by (simp add: serve_saved_settings split: request.splits)
  then show ?case using Cons.IH by (simp add: a)
qed simp

theorem unique_pairs_witness:
  "distinct (keys_of (DEFAULT_TTPS ''t0''))
   \<and> distinct (keys_of (fst (import_layer ''t1''
         [LayerTechnique \<lparr>techniqueID = Some ''T1059'', layer_tactic = Some ''Execution''\<rparr>,
          LayerTechnique \<lparr>techniqueID = Some ''T1059'', layer_tactic = Some ''Persistence''\<rparr>]
         (DEFAULT_TTPS ''t0'') 0)))
   \<and> row_key (hd (DEFAULT_TTPS ''t0'')) \<in> set (keys_of (DEFAULT_TTPS ''t0''))
   \<and> insert_or_ignore (hd (DEFAULT_TTPS ''t0'')) (DEFAULT_TTPS ''t0'') = DEFAULT_TTPS ''t0''
   \<and> keys_of (insert_or_ignore
         (hd (DEFAULT_TTPS ''t1'')\<lparr>technique_id := ''T1059'', tactic_id := ''impact''\<rparr>)
         (insert_or_ignore
            (hd (DEFAULT_TTPS ''t1'')\<lparr>technique_id := ''T1059'', tactic_id := ''persistence''\<rparr>)
            (DEFAULT_TTPS ''t0'')))
     = keys_of (DEFAULT_TTPS ''t0'') @ [(''T1059'', ''persistence''), (''T1059'', ''impact'')]"
  using unique_pairs [where tbl = "DEFAULT_TTPS ''t0''" and now = "''t1''" and n = 0
      and ts = "[LayerTechnique \<lparr>techniqueID = Some ''T1059'', layer_tactic = Some ''Execution''\<rparr>,
          LayerTechnique \<lparr>techniqueID = Some ''T1059'', layer_tactic = Some ''Persistence''\<rparr>]"
      and r = "hd (DEFAULT_TTPS ''t0'')" and tid = "''T1059''"
      and ?tac1.0 = "''persistence''" and ?tac2.0 = "''impact''"
      and ?r1.0 = "hd (DEFAULT_TTPS ''t1'')" and ?r2.0 = "hd (DEFAULT_TTPS ''t1'')"]
  by (simp add: DEFAULT_TTPS_def keys_of_def row_key_def)

lemma insert_all_DEFAULT_TTPS: "insert_all (DEFAULT_TTPS now) [] = DEFAULT_TTPS now"
  by (simp add: DEFAULT_TTPS_def insert_or_ignore_def keys_of_def row_key_def)

lemma keys_of_DEFAULT_TTPS:
  "keys_of (DEFAULT_TTPS now) =
     [(''T1059'', ''execution''), (''T1021'', ''lateral-movement''), (''T1003'', ''credential-access'')]"
  by (simp add: DEFAULT_TTPS_def keys_of_def row_key_def)

lemma nonempty_insert_or_ignore: "t \<noteq> [] \<Longrightarrow> insert_or_ignore r t \<noteq> []"
  by (simp add: insert_or_ignore_def)

lemma nonempty_update_enrich: "t \<noteq> [] \<Longrightarrow> update_enrich nm ds tid tac t \<noteq> []"
  by (simp add: update_enrich_def)

lemma seeded_nonempty: "both (\<lambda>t. t \<noteq> []) (seed_minimal_ttps now (get_db db))"
  by (simp add: both_def seed_minimal_ttps_def get_db_def commit_def insert_all_DEFAULT_TTPS)
    (simp add: DEFAULT_TTPS_def)

lemma serve_nonempty: "both (\<lambda>t. t \<noteq> []) (serve now req db)"
proof -
  have "both (\<lambda>t. t \<noteq> []) (handle req (seed_minimal_ttps now (get_db db)))"
    by (rule handle_pres [where P = "\<lambda>t. t \<noteq> []", OF nonempty_insert_or_ignore
          nonempty_update_enrich seeded_nonempty])
  then show ?thesis by (simp add: serve_def close_db_pres)
qed

text \<open>
  Claim C10. On an empty catalog \<open>seed_minimal_ttps\<close> inserts exactly the three rows of
  \<open>DEFAULT_TTPS\<close> (T1059 under execution, T1021 under lateral-movement, T1003 under
  credential-access) and commits them; on a non-empty catalog it does nothing. It leaves
  the settings, and so the flag, as they are. After any request the catalog is not
  empty, and after a request other than the import the flag reads as before: on a new
  database the catalog then holds the three rows while the flag reads false.
\<close>

theorem seed_when_empty:
  "(ttps db = [] \<longrightarrow>
      ttps (seed_minimal_ttps now db) = DEFAULT_TTPS now
      \<and> saved_ttps (seed_minimal_ttps now db) = DEFAULT_TTPS now
      \<and> keys_of (ttps (seed_minimal_ttps now db)) =
          [(''T1059'', ''execution''), (''T1021'', ''lateral-movement''),
           (''T1003'', ''credential-access'')])
   \<and> (ttps db \<noteq> [] \<longrightarrow> seed_minimal_ttps now db = db)
   \<and> settings (seed_minimal_ttps now db) = settings db
   \<and> mitre_loaded (seed_minimal_ttps now db) = mitre_loaded db
   \<and> ttps (serve now req db) \<noteq> [] \<and> saved_ttps (serve now req db) \<noteq> []
   \<and> mitre_loaded (serve now OtherRequest db) = mitre_loaded (get_db db)
   \<and> \<not> mitre_loaded (serve now OtherRequest fresh_db)
   \<and> ttps (serve now OtherRequest fresh_db) = DEFAULT_TTPS now"
proof -
  have a: "ttps db = [] \<longrightarrow>
      ttps (seed_minimal_ttps now db) = DEFAULT_TTPS now
      \<and> saved_ttps (seed_minimal_ttps now db) = DEFAULT_TTPS now
      \<and> keys_of (ttps (seed_minimal_ttps now db)) =
          [(''T1059'', ''execution''), (''T1021'', ''lateral-movement''),
           (''T1003'', ''credential-access'')]"
    by (simp add: seed_minimal_ttps_def commit_def insert_all_DEFAULT_TTPS keys_of_DEFAULT_TTPS)
  have b: "ttps db \<noteq> [] \<longrightarrow> seed_minimal_ttps now db = db"
    by (simp add: seed_minimal_ttps_def)
  have c: "settings (seed_minimal_ttps now db) = settings db"
    by (rule seed_minimal_ttps_settings)
  have d: "mitre_loaded (seed_minimal_ttps now db) = mitre_loaded db"
    by (simp add: mitre_loaded_iff seed_minimal_ttps_settings)
  have e: "ttps (serve now req db) \<noteq> [] \<and> saved_ttps (serve now req db) \<noteq> []"
    using serve_nonempty [of now req db] by (simp add: both_def)
  have f: "mitre_loaded (serve now OtherRequest db) = mitre_loaded (get_db db)"
    by (simp add: mitre_loaded_iff serve_settings serve_saved_settings) (simp add: get_db_def)
  have g: "\<not> mitre_loaded (serve now OtherRequest fresh_db)"
    by (simp add: mitre_loaded_iff serve_settings serve_saved_settings fresh_db_def)
  have h: "ttps (serve now OtherRequest fresh_db) = DEFAULT_TTPS now"
    by (simp add: serve_def handle_def close_db_def get_db_def fresh_db_def
        seed_minimal_ttps_def commit_def insert_all_DEFAULT_TTPS)
  show ?thesis using a b c d e f g h by blast
qed

theorem seed_when_empty_witness:
  "ttps fresh_db = []
   \<and> keys_of (ttps (seed_minimal_ttps ''t0'' fresh_db)) =
       [(''T1059'', ''execution''), (''T1021'', ''lateral-movement''),
        (''T1003'', ''credential-access'')]
   \<and> ttps (seed_minimal_ttps ''t0'' fresh_db) \<noteq> []
   \<and> seed_minimal_ttps ''t1'' (seed_minimal_ttps ''t0'' fresh_db) = seed_minimal_ttps ''t0'' fresh_db"
proof -
  have h1: "ttps fresh_db = []"
    by (simp add: fresh_db_def)
  have h2: "ttps (seed_minimal_ttps ''t0'' fresh_db) \<noteq> []"
    by (simp add: seed_minimal_ttps_def fresh_db_def commit_def insert_or_ignore_def
        DEFAULT_TTPS_def keys_of_def row_key_def)
  show ?thesis
    using h1 h2
      seed_when_empty [where db = fresh_db and now = "''t0''", THEN conjunct1]
      seed_when_empty [where db = "seed_minimal_ttps ''t0'' fresh_db" and now = "''t1''",
        THEN conjunct2, THEN conjunct1]
    by (simp add: keys_of_DEFAULT_TTPS)
qed

section \<open>Failing sources\<close>


lemma keeps_rows_refl: "keeps_rows t t"
  by (simp add: keeps_rows_def)

lemma keeps_rows_insert_or_ignore:
  "keeps_rows t0 t \<Longrightarrow> keeps_rows t0 (insert_or_ignore r t)"
  by (simp add: keeps_rows_def insert_or_ignore_def keys_of_def prefix_prefix)

lemma keeps_rows_update_enrich:
  "keeps_rows t0 t \<Longrightarrow> keeps_rows t0 (update_enrich nm ds tid tac t)"
  by (simp add: keeps_rows_def)

lemma ttps_finish: "ttps (fst (finish db res)) = fst res"
  by (cases res) (auto simp: finish_def commit_def split: py.splits)

lemma try_import_ttps_pres:
  assumes "\<And>r t. P t \<Longrightarrow> P (insert_or_ignore r t)" and "P (ttps db)"
  shows "P (ttps (fst (try_import_from_stix_or_layer now js db)))"
  using assms(2) import_stix_pres [where P = P, OF assms]
    import_layer_pres [where P = P, OF assms]
  by (cases js) (simp_all add: try_import_from_stix_or_layer_def ttps_finish)

lemma try_enrich_ttps_pres:
  assumes "\<And>r t. P t \<Longrightarrow> P (insert_or_ignore r t)"
    and "\<And>nm ds tid tac t. P t \<Longrightarrow> P (update_enrich nm ds tid tac t)" and "P (ttps db)"
  shows "P (ttps (fst (try_enrich_from_xlsx openpyxl clock f db)))"
  using assms(3) xlsx_sheets_pres [where P = P, OF assms]
  by (cases f) (simp_all add: try_enrich_from_xlsx_def ttps_finish)

lemma load_json_candidates_ttps_pres:
  assumes "\<And>r t. P t \<Longrightarrow> P (insert_or_ignore r t)" and "P (ttps db)"
  shows "P (ttps (fst (load_json_candidates ps db tot)))"
  using assms(2)
proof (induction ps db tot rule: load_json_candidates.induct)
  case (4 js now ps db tot)
  have "P (ttps (fst (try_import_from_stix_or_layer now js db)))"
    by (rule try_import_ttps_pres [where P = P, OF assms(1) "4.prems"])
  then show ?case
    using "4.IH" by (auto split: prod.splits py.splits)
qed simp_all

lemma load_xlsx_candidates_ttps_pres:
  assumes "\<And>r t. P t \<Longrightarrow> P (insert_or_ignore r t)"
    and "\<And>nm ds tid tac t. P t \<Longrightarrow> P (update_enrich nm ds tid tac t)" and "P (ttps db)"
  shows "P (ttps (fst (load_xlsx_candidates openpyxl ps db tot)))"
  using assms(3)
proof (induction ps arbitrary: db tot)
  case (Cons p ps)
  obtain f clock where p: "p = (f, clock)" by (cases p)
  have "P (ttps (fst (try_enrich_from_xlsx openpyxl clock f db)))"
    by (rule try_enrich_ttps_pres [where P = P, OF assms(1) assms(2) Cons.prems])
  then show ?case
    using Cons.IH Cons.prems
    by (auto simp: p load_xlsx_candidates_Cons split: prod.splits py.splits)
qed simp

lemma admin_load_mitre_ttps_pres:
  assumes "\<And>r t. P t \<Longrightarrow> P (insert_or_ignore r t)"
    and "\<And>nm ds tid tac t. P t \<Longrightarrow> P (update_enrich nm ds tid tac t)" and "P (ttps db)"
  shows "P (ttps (fst (admin_load_mitre e db)))"
proof -
  have 1: "P (ttps (fst (load_json_candidates (json_candidates e) db 0)))"
    by (rule load_json_candidates_ttps_pres [where P = P, OF assms(1) assms(3)])
  have 2: "P (ttps (fst (load_xlsx_candidates (have_openpyxl e) (xlsx_candidates e)
      (fst (load_json_candidates (json_candidates e) db 0))
      (snd (load_json_candidates (json_candidates e) db 0)))))"
    by (rule load_xlsx_candidates_ttps_pres [where P = P, OF assms(1) assms(2) 1])
  show ?thesis
    using 2 by (auto simp: admin_load_mitre_def set_setting_def commit_def split: prod.splits)
qed

lemma load_json_candidates_append:
  "load_json_candidates (ps @ ps') db tot =
     load_json_candidates ps' (fst (load_json_candidates ps db tot))
       (snd (load_json_candidates ps db tot))"
  by (induction ps db tot rule: load_json_candidates.induct)
    (auto split: prod.splits py.splits)

lemma load_xlsx_candidates_append:
  "load_xlsx_candidates openpyxl (ps @ ps') db tot =
     load_xlsx_candidates openpyxl ps' (fst (load_xlsx_candidates openpyxl ps db tot))
       (snd (load_xlsx_candidates openpyxl ps db tot))"
proof (induction ps arbitrary: db tot)
  case (Cons p ps)
  obtain f clock where p: "p = (f, clock)" by (cases p)
  show ?case
    using Cons.IH by (auto simp: p load_xlsx_candidates_Cons split: prod.splits py.splits)
qed simp

lemma finish_Raise:
  "snd (finish db res) = Raise ex \<Longrightarrow>
     saved_ttps (fst (finish db res)) = saved_ttps db
     \<and> saved_settings (fst (finish db res)) = saved_settings db
     \<and> settings (fst (finish db res)) = settings db"
  by (cases res) (auto simp: finish_def split: py.splits)

lemma try_import_Raise:
  "snd (try_import_from_stix_or_layer now js db) = Raise ex \<Longrightarrow>
     saved_ttps (fst (try_import_from_stix_or_layer now js db)) = saved_ttps db
     \<and> saved_settings (fst (try_import_from_stix_or_layer now js db)) = saved_settings db
     \<and> settings (fst (try_import_from_stix_or_layer now js db)) = settings db"
  by (cases js) (simp_all add: try_import_from_stix_or_layer_def finish_Raise)

lemma try_enrich_Raise:
  "snd (try_enrich_from_xlsx openpyxl clock f db) = Raise ex \<Longrightarrow>
     saved_ttps (fst (try_enrich_from_xlsx openpyxl clock f db)) = saved_ttps db
     \<and> saved_settings (fst (try_enrich_from_xlsx openpyxl clock f db)) = saved_settings db
     \<and> settings (fst (try_enrich_from_xlsx openpyxl clock f db)) = settings db"
  by (cases f) (auto simp: try_enrich_from_xlsx_def finish_Raise split: if_splits)

text \<open>
  Claim C9. In the loops of \<open>admin_load_mitre\<close> a candidate path with no file is passed
  over: connection and total stay as they are, and the run goes on with the remaining
  candidates. A file that cannot be loaded, and a document whose import raises, leave the
  total and the committed table as they are, keep every row the connection already saw,
  and the run goes on with the remaining candidates. A run over a list of candidates
  followed by another list is the run over the second list from where the first ended.
  Every row the connection saw before a run is there after it, and, when the committed
  rows were among those the connection saw, every committed row is still committed
  after it.
\<close>

theorem failure_isolated:
  "load_json_candidates ((JsonMissing, now) # ps) db tot = load_json_candidates ps db tot
   \<and> load_xlsx_candidates openpyxl ((XlsxMissing, clock) # xs) db tot
       = load_xlsx_candidates openpyxl xs db tot
   \<and> load_json_candidates ((JsonInvalid, now) # ps) db tot = load_json_candidates ps db tot
   \<and> (snd (try_import_from_stix_or_layer now js db) = Raise ex \<longrightarrow>
        load_json_candidates ((JsonDoc js, now) # ps) db tot
          = load_json_candidates ps (fst (try_import_from_stix_or_layer now js db)) tot
        \<and> saved_ttps (fst (try_import_from_stix_or_layer now js db)) = saved_ttps db
        \<and> keeps_rows (ttps db) (ttps (fst (try_import_from_stix_or_layer now js db))))
   \<and> (f \<noteq> XlsxMissing \<and> snd (try_enrich_from_xlsx openpyxl clock f db) = Raise ex \<longrightarrow>
        load_xlsx_candidates openpyxl ((f, clock) # xs) db tot
          = load_xlsx_candidates openpyxl xs (fst (try_enrich_from_xlsx openpyxl clock f db)) tot
        \<and> saved_ttps (fst (try_enrich_from_xlsx openpyxl clock f db)) = saved_ttps db
        \<and> keeps_rows (ttps db) (ttps (fst (try_enrich_from_xlsx openpyxl clock f db))))
   \<and> load_json_candidates (ps @ ps') db tot
       = load_json_candidates ps' (fst (load_json_candidates ps db tot))
           (snd (load_json_candidates ps db tot))
   \<and> load_xlsx_candidates openpyxl (xs @ xs') db tot
       = load_xlsx_candidates openpyxl xs' (fst (load_xlsx_candidates openpyxl xs db tot))
           (snd (load_xlsx_candidates openpyxl xs db tot))
   \<and> keeps_rows (ttps db) (ttps (fst (load_json_candidates ps db tot)))
   \<and> keeps_rows (ttps db) (ttps (fst (load_xlsx_candidates openpyxl xs db tot)))
   \<and> keeps_rows (ttps db) (ttps (fst (admin_load_mitre e db)))
   \<and> (keeps_rows (saved_ttps db) (ttps db) \<longrightarrow>
        keeps_rows (saved_ttps db) (saved_ttps (fst (load_json_candidates ps db tot)))
        \<and> keeps_rows (saved_ttps db)
            (saved_ttps (fst (load_xlsx_candidates openpyxl xs db tot)))
        \<and> keeps_rows (saved_ttps db) (saved_ttps (fst (admin_load_mitre e db))))"
proof -
  let ?W = "keeps_rows (ttps db)"
  let ?S = "keeps_rows (saved_ttps db)"
  have insW: "\<And>r t. ?W t \<Longrightarrow> ?W (insert_or_ignore r t)"
    by (rule keeps_rows_insert_or_ignore)
  have updW: "\<And>nm ds tid tac t. ?W t \<Longrightarrow> ?W (update_enrich nm ds tid tac t)"
    by (rule keeps_rows_update_enrich)
  have insS: "\<And>r t. ?S t \<Longrightarrow> ?S (insert_or_ignore r t)"
    by (rule keeps_rows_insert_or_ignore)
  have updS: "\<And>nm ds tid tac t. ?S t \<Longrightarrow> ?S (update_enrich nm ds tid tac t)"
    by (rule keeps_rows_update_enrich)
  have c1: "load_json_candidates ((JsonMissing, now) # ps) db tot = load_json_candidates ps db tot"
    by simp
  have c2: "load_xlsx_candidates openpyxl ((XlsxMissing, clock) # xs) db tot
       = load_xlsx_candidates openpyxl xs db tot"
    by simp
  have c3: "load_json_candidates ((JsonInvalid, now) # ps) db tot = load_json_candidates ps db tot"
    by simp
  have c4: "snd (try_import_from_stix_or_layer now js db) = Raise ex \<longrightarrow>
        load_json_candidates ((JsonDoc js, now) # ps) db tot
          = load_json_candidates ps (fst (try_import_from_stix_or_layer now js db)) tot
        \<and> saved_ttps (fst (try_import_from_stix_or_layer now js db)) = saved_ttps db
        \<and> keeps_rows (ttps db) (ttps (fst (try_import_from_stix_or_layer now js db)))"
    using try_import_Raise [of now js db ex]
      try_import_ttps_pres [where P = ?W, OF insW keeps_rows_refl]
    by (auto split: prod.splits py.splits)
  have c5: "f \<noteq> XlsxMissing \<and> snd (try_enrich_from_xlsx openpyxl clock f db) = Raise ex \<longrightarrow>
        load_xlsx_candidates openpyxl ((f, clock) # xs) db tot
          = load_xlsx_candidates openpyxl xs (fst (try_enrich_from_xlsx openpyxl clock f db)) tot
        \<and> saved_ttps (fst (try_enrich_from_xlsx openpyxl clock f db)) = saved_ttps db
        \<and> keeps_rows (ttps db) (ttps (fst (try_enrich_from_xlsx openpyxl clock f db)))"
    using try_enrich_Raise [of openpyxl clock f db ex]
      try_enrich_ttps_pres [where P = ?W, OF insW updW keeps_rows_refl]
    by (auto simp: load_xlsx_candidates_Cons split: prod.splits py.splits)
  have c6: "keeps_rows (ttps db) (ttps (fst (load_json_candidates ps db tot)))"
    by (rule load_json_candidates_ttps_pres [where P = ?W, OF insW keeps_rows_refl])
  have c7: "keeps_rows (ttps db) (ttps (fst (load_xlsx_candidates openpyxl xs db tot)))"
    by (rule load_xlsx_candidates_ttps_pres [where P = ?W, OF insW updW keeps_rows_refl])
  have c8: "keeps_rows (ttps db) (ttps (fst (admin_load_mitre e db)))"
    by (rule admin_load_mitre_ttps_pres [where P = ?W, OF insW updW keeps_rows_refl])
  have c9: "keeps_rows (saved_ttps db) (ttps db) \<longrightarrow>
        keeps_rows (saved_ttps db) (saved_ttps (fst (load_json_candidates ps db tot)))
        \<and> keeps_rows (saved_ttps db)
            (saved_ttps (fst (load_xlsx_candidates openpyxl xs db tot)))
        \<and> keeps_rows (saved_ttps db) (saved_ttps (fst (admin_load_mitre e db)))"
  proof
    assume "keeps_rows (saved_ttps db) (ttps db)"
    then have b: "both ?S db" by (simp add: both_def keeps_rows_refl)
    have "both ?S (fst (load_json_candidates ps db tot))"
      by (rule load_json_candidates_pres [where P = ?S, OF insS b])
    moreover have "both ?S (fst (load_xlsx_candidates openpyxl xs db tot))"
      by (rule load_xlsx_candidates_pres [where P = ?S, OF insS updS b])
    moreover have "both ?S (fst (admin_load_mitre e db))"
      by (rule admin_load_mitre_pres [where P = ?S, OF insS updS b])
    ultimately show "keeps_rows (saved_ttps db) (saved_ttps (fst (load_json_candidates ps db tot)))
        \<and> keeps_rows (saved_ttps db)
            (saved_ttps (fst (load_xlsx_candidates openpyxl xs db tot)))
        \<and> keeps_rows (saved_ttps db) (saved_ttps (fst (admin_load_mitre e db)))"
      by (simp add: both_def)
  qed
  show ?thesis
    using c1 c2 c3 c4 c5 c6 c7 c8 c9 load_json_candidates_append [of ps ps' db tot]
      load_xlsx_candidates_append [of openpyxl xs xs' db tot]
    by blast
qed


theorem failure_isolated_witness:
  "snd (try_import_from_stix_or_layer ''t1'' (Bundle [StixObject
          \<lparr>stix_type = Some ''attack-pattern'', stix_name = Some ''Remote Services'',
           stix_description = Some ''d'',
           external_references =
             [\<lparr>source_name = Some ''mitre-attack'', external_id = Some ''T1021''\<rparr>],
           kill_chain_phases =
             [\<lparr>kill_chain_name = Some ''mitre-attack'',
               phase_name = Some ''lateral-movement''\<rparr>]\<rparr>,
         StixNotADict]) fresh_db) = Raise AttributeError
   \<and> load_json_candidates [(JsonDoc (Bundle [StixObject
          \<lparr>stix_type = Some ''attack-pattern'', stix_name = Some ''Remote Services'',
           stix_description = Some ''d'',
           external_references =
             [\<lparr>source_name = Some ''mitre-attack'', external_id = Some ''T1021''\<rparr>],
           kill_chain_phases =
             [\<lparr>kill_chain_name = Some ''mitre-attack'',
               phase_name = Some ''lateral-movement''\<rparr>]\<rparr>,
         StixNotADict]), ''t1''), (JsonMissing, ''t2'')] fresh_db 0
       = load_json_candidates [(JsonMissing, ''t2'')]
           (fst (try_import_from_stix_or_layer ''t1'' (Bundle [StixObject
          \<lparr>stix_type = Some ''attack-pattern'', stix_name = Some ''Remote Services'',
           stix_description = Some ''d'',
           external_references =
             [\<lparr>source_name = Some ''mitre-attack'', external_id = Some ''T1021''\<rparr>],
           kill_chain_phases =
             [\<lparr>kill_chain_name = Some ''mitre-attack'',
               phase_name = Some ''lateral-movement''\<rparr>]\<rparr>,
         StixNotADict]) fresh_db)) 0
   \<and> saved_ttps (fst (try_import_from_stix_or_layer ''t1'' (Bundle [StixObject
          \<lparr>stix_type = Some ''attack-pattern'', stix_name = Some ''Remote Services'',
           stix_description = Some ''d'',
           external_references =
             [\<lparr>source_name = Some ''mitre-attack'', external_id = Some ''T1021''\<rparr>],
           kill_chain_phases =
             [\<lparr>kill_chain_name = Some ''mitre-attack'',
               phase_name = Some ''lateral-movement''\<rparr>]\<rparr>,
         StixNotADict]) fresh_db)) = saved_ttps fresh_db
   \<and> XlsxInvalid \<noteq> XlsxMissing
   \<and> snd (try_enrich_from_xlsx True (\<lambda>k. ''t3'') XlsxInvalid fresh_db) = Raise LoadError
   \<and> load_xlsx_candidates True [(XlsxInvalid, \<lambda>k. ''t3'')] fresh_db 0
       = load_xlsx_candidates True []
           (fst (try_enrich_from_xlsx True (\<lambda>k. ''t3'') XlsxInvalid fresh_db)) 0
   \<and> keeps_rows (saved_ttps fresh_db) (ttps fresh_db)
   \<and> keeps_rows (saved_ttps fresh_db)
        (saved_ttps (fst (load_json_candidates [(JsonDoc (Bundle [StixObject
          \<lparr>stix_type = Some ''attack-pattern'', stix_name = Some ''Remote Services'',
           stix_description = Some ''d'',
           external_references =
             [\<lparr>source_name = Some ''mitre-attack'', external_id = Some ''T1021''\<rparr>],
           kill_chain_phases =
             [\<lparr>kill_chain_name = Some ''mitre-attack'',
               phase_name = Some ''lateral-movement''\<rparr>]\<rparr>,
         StixNotADict]), ''t1'')] fresh_db 0)))"
proof -
  have h1: "snd (try_import_from_stix_or_layer ''t1'' (Bundle [StixObject
          \<lparr>stix_type = Some ''attack-pattern'', stix_name = Some ''Remote Services'',
           stix_description = Some ''d'',
           external_references =
             [\<lparr>source_name = Some ''mitre-attack'', external_id = Some ''T1021''\<rparr>],
           kill_chain_phases =
             [\<lparr>kill_chain_name = Some ''mitre-attack'',
               phase_name = Some ''lateral-movement''\<rparr>]\<rparr>,
         StixNotADict]) fresh_db) = Raise AttributeError"
    by (simp add: try_import_from_stix_or_layer_def finish_def)
  have h2: "XlsxInvalid \<noteq> XlsxMissing
      \<and> snd (try_enrich_from_xlsx True (\<lambda>k. ''t3'') XlsxInvalid fresh_db) = Raise LoadError"
    by (simp add: try_enrich_from_xlsx_def)
  have h3: "keeps_rows (saved_ttps fresh_db) (ttps fresh_db)"
    by (simp add: keeps_rows_def fresh_db_def)
  show ?thesis
    using h1 h2 h3
      failure_isolated [where now = "''t1''" and js = "(Bundle [StixObject
          \<lparr>stix_type = Some ''attack-pattern'', stix_name = Some ''Remote Services'',
           stix_description = Some ''d'',
           external_references =
             [\<lparr>source_name = Some ''mitre-attack'', external_id = Some ''T1021''\<rparr>],
           kill_chain_phases =
             [\<lparr>kill_chain_name = Some ''mitre-attack'',
               phase_name = Some ''lateral-movement''\<rparr>]\<rparr>,
         StixNotADict])" and db = fresh_db
        and ex = AttributeError and ps = "[(JsonMissing, ''t2'')]" and tot = 0]
      failure_isolated [where f = XlsxInvalid and clock = "\<lambda>k. ''t3''" and openpyxl = True
        and db = fresh_db and ex = LoadError and xs = "[]" and tot = 0]
      failure_isolated [where db = fresh_db and ps = "[(JsonDoc (Bundle [StixObject
          \<lparr>stix_type = Some ''attack-pattern'', stix_name = Some ''Remote Services'',
           stix_description = Some ''d'',
           external_references =
             [\<lparr>source_name = Some ''mitre-attack'', external_id = Some ''T1021''\<rparr>],
           kill_chain_phases =
             [\<lparr>kill_chain_name = Some ''mitre-attack'',
               phase_name = Some ''lateral-movement''\<rparr>]\<rparr>,
         StixNotADict]), ''t1'')]" and tot = 0]
    by blast
qed

section \<open>Bundle objects and sheet headers\<close>


lemma find_tech_id_filter:
  "find_tech_id rs = (case filter ref_matches rs of [] \<Rightarrow> None | ref # _ \<Rightarrow> external_id ref)"
  by (induction rs) simp_all

lemma ref_matches_external_id:
  "ref_matches ref \<Longrightarrow> \<exists>t. external_id ref = Some t \<and> startswith t ''T''"
  by (cases "external_id ref") (simp_all add: ref_matches_def or_empty_def startswith_def)

lemma find_tech_id_Some:
  "find_tech_id rs = Some t \<Longrightarrow> startswith t ''T'' \<and> t \<noteq> []"
proof (induction rs)
  case (Cons ref rs)
  then show ?case
    using ref_matches_external_id [of ref]
    by (auto simp: startswith_def split: if_splits)
qed simp

lemma find_tech_id_None:
  "find_tech_id rs = None \<longleftrightarrow> filter ref_matches rs = []"
proof (induction rs)
  case (Cons ref rs)
  then show ?case using ref_matches_external_id [of ref] by auto
qed simp

lemma import_stix_single:
  "import_stix now [StixObject obj] tbl n =
     (insert_all (stix_rows now obj) tbl, Return (n + length (stix_rows now obj)))"
  by simp

text \<open>
  Claim C6. For a bundle object the technique id is the external id of the first
  reference whose \<open>source_name\<close>, lower-cased, is \<open>mitre-attack\<close> and whose external id
  begins with \<open>T\<close>; without such a reference the object asks for no row. An object with
  no \<open>mitre-attack\<close> phase asks for no row. An \<open>attack-pattern\<close> with a technique id and
  \<open>N\<close> such phases asks for exactly \<open>N\<close> rows, one for each phase in order, with the phase
  name lower-cased as the tactic, all with the same technique id, name and description;
  the import of the object adds \<open>N\<close> to the count.
\<close>

theorem bundle_object_rows:
  "find_tech_id (external_references obj) =
     (case filter ref_matches (external_references obj) of
        [] \<Rightarrow> None | ref # _ \<Rightarrow> external_id ref)
   \<and> (filter ref_matches (external_references obj) = [] \<longrightarrow> stix_rows now obj = [])
   \<and> (stix_tactics obj = [] \<longrightarrow> stix_rows now obj = [])
   \<and> (stix_type obj = Some ''attack-pattern''
        \<and> find_tech_id (external_references obj) = Some tech_id \<longrightarrow>
        length (stix_rows now obj) = length (stix_tactics obj)
        \<and> map tactic_id (stix_rows now obj) = map (\<lambda>tac. lower (or_empty tac)) (stix_tactics obj)
        \<and> (\<forall>r \<in> set (stix_rows now obj).
              technique_id r = tech_id \<and> name r = stix_name obj
              \<and> description r = Some (strip (or_empty (stix_description obj)))))
   \<and> snd (import_stix now [StixObject obj] tbl n) = Return (n + length (stix_rows now obj))
   \<and> fst (import_stix now [StixObject obj] tbl n) = insert_all (stix_rows now obj) tbl"
proof -
  have a: "filter ref_matches (external_references obj) = [] \<longrightarrow> stix_rows now obj = []"
    using find_tech_id_None [of "external_references obj"] by (auto simp: stix_rows_def)
  have b: "stix_tactics obj = [] \<longrightarrow> stix_rows now obj = []"
    by (simp add: stix_rows_def split: option.splits)
  have c: "stix_type obj = Some ''attack-pattern''
        \<and> find_tech_id (external_references obj) = Some tech_id \<longrightarrow>
        length (stix_rows now obj) = length (stix_tactics obj)
        \<and> map tactic_id (stix_rows now obj) = map (\<lambda>tac. lower (or_empty tac)) (stix_tactics obj)
        \<and> (\<forall>r \<in> set (stix_rows now obj).
              technique_id r = tech_id \<and> name r = stix_name obj
              \<and> description r = Some (strip (or_empty (stix_description obj))))"
    using find_tech_id_Some [of "external_references obj" tech_id]
    by (auto simp: stix_rows_def comp_def)
  show ?thesis
    using a b c find_tech_id_filter [of "external_references obj"] by simp
qed

lemma dict_set_vals: "(k', c') \<in> set (dict_set h k c) \<Longrightarrow> c' = c \<or> (k', c') \<in> set h"
  by (induction h k c rule: dict_set.induct) (auto split: if_splits)

lemma build_header_vals:
  "(k, c') \<in> set (build_header vs c h) \<Longrightarrow> c \<le> c' \<or> (k, c') \<in> set h"
proof (induction vs c h rule: build_header.induct)
  case (3 s vs c header)
  then show ?case using dict_set_vals [of k c' header "lower (strip s)" c] by fastforce
next
  case (4 s vs c header)
  then show ?case using dict_set_vals [of k c' header "lower (strip s)" c] by fastforce
qed auto

lemma find_col_in: "find_col keys h = Some c \<Longrightarrow> \<exists>k. (k, c) \<in> set h"
  by (induction keys h rule: find_col.induct) (auto split: if_splits)

lemma find_col_sheet_header: "find_col keys (sheet_header ws) = Some c \<Longrightarrow> 1 \<le> c"
  using find_col_in [of keys "sheet_header ws" c] build_header_vals [of _ c "header_cells ws" 1 "[]"]
  by (auto simp: sheet_header_def)

lemma not_col_find_col: "not_col (find_col keys (sheet_header ws)) = (find_col keys (sheet_header ws) = None)"
  using find_col_sheet_header [of keys ws]
  by (cases "find_col keys (sheet_header ws)") (auto simp: not_col_def)

text \<open>
  Claim C7. A sheet in which the header search finds no identifier column, no name
  column or no tactics column is passed over: table and count stay as they are. A sheet
  in which the three are found is processed row by row, whether or not a description
  column is found.
\<close>

theorem sheet_without_columns_skipped:
  "(find_col_id ws = None \<or> find_col_name ws = None \<or> find_col_tac ws = None \<longrightarrow>
      xlsx_sheet clock ws tbl updated = (tbl, Return updated))
   \<and> (find_col_id ws = Some ci \<and> find_col_name ws = Some cn \<and> find_col_tac ws = Some ct \<longrightarrow>
        xlsx_sheet clock ws tbl updated =
          xlsx_rows clock ci cn (find_col_desc ws) ct (data_rows ws) tbl updated)"
proof -
  have n: "not_col (find_col_id ws) = (find_col_id ws = None)"
    "not_col (find_col_name ws) = (find_col_name ws = None)"
    "not_col (find_col_tac ws) = (find_col_tac ws = None)"
    "not_col (find_col_desc ws) = (find_col_desc ws = None)"
    by (simp_all add: find_col_id_def find_col_name_def find_col_tac_def find_col_desc_def
        not_col_find_col)
  show ?thesis
    unfolding xlsx_sheet_def n by auto
qed


theorem bundle_object_rows_witness:
  "stix_type \<lparr>stix_type = Some ''attack-pattern'', stix_name = Some ''Scheduled Task'',
       stix_description = Some '' d '',
       external_references =
         [\<lparr>source_name = Some ''capec'', external_id = Some ''CAPEC-1''\<rparr>,
          \<lparr>source_name = Some ''mitre-attack'', external_id = Some ''T1053''\<rparr>],
       kill_chain_phases =
         [\<lparr>kill_chain_name = Some ''mitre-attack'', phase_name = Some ''execution''\<rparr>,
          \<lparr>kill_chain_name = Some ''other'', phase_name = Some ''x''\<rparr>,
          \<lparr>kill_chain_name = Some ''mitre-attack'', phase_name = Some ''persistence''\<rparr>]\<rparr> = Some ''attack-pattern''
   \<and> find_tech_id (external_references \<lparr>stix_type = Some ''attack-pattern'', stix_name = Some ''Scheduled Task'',
       stix_description = Some '' d '',
       external_references =
         [\<lparr>source_name = Some ''capec'', external_id = Some ''CAPEC-1''\<rparr>,
          \<lparr>source_name = Some ''mitre-attack'', external_id = Some ''T1053''\<rparr>],
       kill_chain_phases =
         [\<lparr>kill_chain_name = Some ''mitre-attack'', phase_name = Some ''execution''\<rparr>,
          \<lparr>kill_chain_name = Some ''other'', phase_name = Some ''x''\<rparr>,
          \<lparr>kill_chain_name = Some ''mitre-attack'', phase_name = Some ''persistence''\<rparr>]\<rparr>) = Some ''T1053''
   \<and> map tactic_id (stix_rows ''t1'' \<lparr>stix_type = Some ''attack-pattern'', stix_name = Some ''Scheduled Task'',
       stix_description = Some '' d '',
       external_references =
         [\<lparr>source_name = Some ''capec'', external_id = Some ''CAPEC-1''\<rparr>,
          \<lparr>source_name = Some ''mitre-attack'', external_id = Some ''T1053''\<rparr>],
       kill_chain_phases =
         [\<lparr>kill_chain_name = Some ''mitre-attack'', phase_name = Some ''execution''\<rparr>,
          \<lparr>kill_chain_name = Some ''other'', phase_name = Some ''x''\<rparr>,
          \<lparr>kill_chain_name = Some ''mitre-attack'', phase_name = Some ''persistence''\<rparr>]\<rparr>) = [''execution'', ''persistence'']
   \<and> list_all (\<lambda>r. technique_id r = ''T1053'' \<and> name r = Some ''Scheduled Task''
         \<and> description r = Some ''d'') (stix_rows ''t1'' \<lparr>stix_type = Some ''attack-pattern'', stix_name = Some ''Scheduled Task'',
       stix_description = Some '' d '',
       external_references =
         [\<lparr>source_name = Some ''capec'', external_id = Some ''CAPEC-1''\<rparr>,
          \<lparr>source_name = Some ''mitre-attack'', external_id = Some ''T1053''\<rparr>],
       kill_chain_phases =
         [\<lparr>kill_chain_name = Some ''mitre-attack'', phase_name = Some ''execution''\<rparr>,
          \<lparr>kill_chain_name = Some ''other'', phase_name = Some ''x''\<rparr>,
          \<lparr>kill_chain_name = Some ''mitre-attack'', phase_name = Some ''persistence''\<rparr>]\<rparr>)
   \<and> filter ref_matches (external_references \<lparr>stix_type = Some ''attack-pattern'', stix_name = Some ''Scheduled Task'',
       stix_description = None,
       external_references = [\<lparr>source_name = Some ''capec'', external_id = Some ''CAPEC-1''\<rparr>],
       kill_chain_phases =
         [\<lparr>kill_chain_name = Some ''mitre-attack'', phase_name = Some ''execution''\<rparr>]\<rparr>) = []
   \<and> stix_rows ''t1'' \<lparr>stix_type = Some ''attack-pattern'', stix_name = Some ''Scheduled Task'',
       stix_description = None,
       external_references = [\<lparr>source_name = Some ''capec'', external_id = Some ''CAPEC-1''\<rparr>],
       kill_chain_phases =
         [\<lparr>kill_chain_name = Some ''mitre-attack'', phase_name = Some ''execution''\<rparr>]\<rparr> = []
   \<and> stix_tactics \<lparr>stix_type = Some ''attack-pattern'', stix_name = Some ''Scheduled Task'',
       stix_description = None,
       external_references =
         [\<lparr>source_name = Some ''mitre-attack'', external_id = Some ''T1053''\<rparr>],
       kill_chain_phases = [\<lparr>kill_chain_name = Some ''other'', phase_name = Some ''x''\<rparr>]\<rparr> = []
   \<and> stix_rows ''t1'' \<lparr>stix_type = Some ''attack-pattern'', stix_name = Some ''Scheduled Task'',
       stix_description = None,
       external_references =
         [\<lparr>source_name = Some ''mitre-attack'', external_id = Some ''T1053''\<rparr>],
       kill_chain_phases = [\<lparr>kill_chain_name = Some ''other'', phase_name = Some ''x''\<rparr>]\<rparr> = []"
proof -
  have h1: "stix_type \<lparr>stix_type = Some ''attack-pattern'', stix_name = Some ''Scheduled Task'',
       stix_description = Some '' d '',
       external_references =
         [\<lparr>source_name = Some ''capec'', external_id = Some ''CAPEC-1''\<rparr>,
          \<lparr>source_name = Some ''mitre-attack'', external_id = Some ''T1053''\<rparr>],
       kill_chain_phases =
         [\<lparr>kill_chain_name = Some ''mitre-attack'', phase_name = Some ''execution''\<rparr>,
          \<lparr>kill_chain_name = Some ''other'', phase_name = Some ''x''\<rparr>,
          \<lparr>kill_chain_name = Some ''mitre-attack'', phase_name = Some ''persistence''\<rparr>]\<rparr> = Some ''attack-pattern''
      \<and> find_tech_id (external_references \<lparr>stix_type = Some ''attack-pattern'', stix_name = Some ''Scheduled Task'',
       stix_description = Some '' d '',
       external_references =
         [\<lparr>source_name = Some ''capec'', external_id = Some ''CAPEC-1''\<rparr>,
          \<lparr>source_name = Some ''mitre-attack'', external_id = Some ''T1053''\<rparr>],
       kill_chain_phases =
         [\<lparr>kill_chain_name = Some ''mitre-attack'', phase_name = Some ''execution''\<rparr>,
          \<lparr>kill_chain_name = Some ''other'', phase_name = Some ''x''\<rparr>,
          \<lparr>kill_chain_name = Some ''mitre-attack'', phase_name = Some ''persistence''\<rparr>]\<rparr>) = Some ''T1053''"
    by (simp add: ref_matches_def or_empty_def lower_def lower_char_def startswith_def)
  have h2: "filter ref_matches (external_references \<lparr>stix_type = Some ''attack-pattern'', stix_name = Some ''Scheduled Task'',
       stix_description = None,
       external_references = [\<lparr>source_name = Some ''capec'', external_id = Some ''CAPEC-1''\<rparr>],
       kill_chain_phases =
         [\<lparr>kill_chain_name = Some ''mitre-attack'', phase_name = Some ''execution''\<rparr>]\<rparr>) = []"
    by (simp add: ref_matches_def or_empty_def lower_def lower_char_def startswith_def)
  have h3: "stix_tactics \<lparr>stix_type = Some ''attack-pattern'', stix_name = Some ''Scheduled Task'',
       stix_description = None,
       external_references =
         [\<lparr>source_name = Some ''mitre-attack'', external_id = Some ''T1053''\<rparr>],
       kill_chain_phases = [\<lparr>kill_chain_name = Some ''other'', phase_name = Some ''x''\<rparr>]\<rparr> = []"
    by (simp add: stix_tactics_def)
  have e1: "map (\<lambda>tac. lower (or_empty tac)) (stix_tactics \<lparr>stix_type = Some ''attack-pattern'', stix_name = Some ''Scheduled Task'',
       stix_description = Some '' d '',
       external_references =
         [\<lparr>source_name = Some ''capec'', external_id = Some ''CAPEC-1''\<rparr>,
          \<lparr>source_name = Some ''mitre-attack'', external_id = Some ''T1053''\<rparr>],
       kill_chain_phases =
         [\<lparr>kill_chain_name = Some ''mitre-attack'', phase_name = Some ''execution''\<rparr>,
          \<lparr>kill_chain_name = Some ''other'', phase_name = Some ''x''\<rparr>,
          \<lparr>kill_chain_name = Some ''mitre-attack'', phase_name = Some ''persistence''\<rparr>]\<rparr>) = [''execution'', ''persistence'']"
    by (simp add: stix_tactics_def or_empty_def lower_def lower_char_def)
  have e2: "strip (or_empty (stix_description \<lparr>stix_type = Some ''attack-pattern'', stix_name = Some ''Scheduled Task'',
       stix_description = Some '' d '',
       external_references =
         [\<lparr>source_name = Some ''capec'', external_id = Some ''CAPEC-1''\<rparr>,
          \<lparr>source_name = Some ''mitre-attack'', external_id = Some ''T1053''\<rparr>],
       kill_chain_phases =
         [\<lparr>kill_chain_name = Some ''mitre-attack'', phase_name = Some ''execution''\<rparr>,
          \<lparr>kill_chain_name = Some ''other'', phase_name = Some ''x''\<rparr>,
          \<lparr>kill_chain_name = Some ''mitre-attack'', phase_name = Some ''persistence''\<rparr>]\<rparr>)) = ''d''"
    by (simp add: or_empty_def strip_def isspace_def)
  show ?thesis
    using h1 h2 h3 e1 e2
      bundle_object_rows [where obj = "\<lparr>stix_type = Some ''attack-pattern'', stix_name = Some ''Scheduled Task'',
       stix_description = Some '' d '',
       external_references =
         [\<lparr>source_name = Some ''capec'', external_id = Some ''CAPEC-1''\<rparr>,
          \<lparr>source_name = Some ''mitre-attack'', external_id = Some ''T1053''\<rparr>],
       kill_chain_phases =
         [\<lparr>kill_chain_name = Some ''mitre-attack'', phase_name = Some ''execution''\<rparr>,
          \<lparr>kill_chain_name = Some ''other'', phase_name = Some ''x''\<rparr>,
          \<lparr>kill_chain_name = Some ''mitre-attack'', phase_name = Some ''persistence''\<rparr>]\<rparr>" and tech_id = "''T1053''" and now = "''t1''"]
      bundle_object_rows [where obj = "\<lparr>stix_type = Some ''attack-pattern'', stix_name = Some ''Scheduled Task'',
       stix_description = None,
       external_references = [\<lparr>source_name = Some ''capec'', external_id = Some ''CAPEC-1''\<rparr>],
       kill_chain_phases =
         [\<lparr>kill_chain_name = Some ''mitre-attack'', phase_name = Some ''execution''\<rparr>]\<rparr>" and now = "''t1''"]
      bundle_object_rows [where obj = "\<lparr>stix_type = Some ''attack-pattern'', stix_name = Some ''Scheduled Task'',
       stix_description = None,
       external_references =
         [\<lparr>source_name = Some ''mitre-attack'', external_id = Some ''T1053''\<rparr>],
       kill_chain_phases = [\<lparr>kill_chain_name = Some ''other'', phase_name = Some ''x''\<rparr>]\<rparr>" and now = "''t1''"]
    by (simp add: list_all_iff)
qed

theorem sheet_without_columns_skipped_witness:
  "find_col_name \<lparr>header_cells = [Text ''ID'', Text ''Tactics''],
       data_rows = [[Text ''T1059'', Text ''Execution'']]\<rparr> = None
   \<and> xlsx_sheet (\<lambda>k. ''t1'') \<lparr>header_cells = [Text ''ID'', Text ''Tactics''],
       data_rows = [[Text ''T1059'', Text ''Execution'']]\<rparr> [] 0 = ([], Return 0)
   \<and> find_col_id \<lparr>header_cells = [Text ''ID'', Text ''Name'', Text ''Tactics''],
       data_rows = [[Text ''T1059'', Text ''Command and Scripting Interpreter'',
                     Text ''Execution'']]\<rparr> = Some 1 \<and> find_col_name \<lparr>header_cells = [Text ''ID'', Text ''Name'', Text ''Tactics''],
       data_rows = [[Text ''T1059'', Text ''Command and Scripting Interpreter'',
                     Text ''Execution'']]\<rparr> = Some 2 \<and> find_col_tac \<lparr>header_cells = [Text ''ID'', Text ''Name'', Text ''Tactics''],
       data_rows = [[Text ''T1059'', Text ''Command and Scripting Interpreter'',
                     Text ''Execution'']]\<rparr> = Some 3
   \<and> find_col_desc \<lparr>header_cells = [Text ''ID'', Text ''Name'', Text ''Tactics''],
       data_rows = [[Text ''T1059'', Text ''Command and Scripting Interpreter'',
                     Text ''Execution'']]\<rparr> = None
   \<and> xlsx_sheet (\<lambda>k. ''t1'') \<lparr>header_cells = [Text ''ID'', Text ''Name'', Text ''Tactics''],
       data_rows = [[Text ''T1059'', Text ''Command and Scripting Interpreter'',
                     Text ''Execution'']]\<rparr> [] 0 =
       xlsx_rows (\<lambda>k. ''t1'') 1 2 None 3 (data_rows \<lparr>header_cells = [Text ''ID'', Text ''Name'', Text ''Tactics''],
       data_rows = [[Text ''T1059'', Text ''Command and Scripting Interpreter'',
                     Text ''Execution'']]\<rparr>) [] 0"
proof -
  have h1: "find_col_name \<lparr>header_cells = [Text ''ID'', Text ''Tactics''],
       data_rows = [[Text ''T1059'', Text ''Execution'']]\<rparr> = None"
    by (simp add: find_col_name_def sheet_header_def lower_def lower_char_def strip_def
        isspace_def startswith_def)
  have h2: "find_col_id \<lparr>header_cells = [Text ''ID'', Text ''Name'', Text ''Tactics''],
       data_rows = [[Text ''T1059'', Text ''Command and Scripting Interpreter'',
                     Text ''Execution'']]\<rparr> = Some 1 \<and> find_col_name \<lparr>header_cells = [Text ''ID'', Text ''Name'', Text ''Tactics''],
       data_rows = [[Text ''T1059'', Text ''Command and Scripting Interpreter'',
                     Text ''Execution'']]\<rparr> = Some 2 \<and> find_col_tac \<lparr>header_cells = [Text ''ID'', Text ''Name'', Text ''Tactics''],
       data_rows = [[Text ''T1059'', Text ''Command and Scripting Interpreter'',
                     Text ''Execution'']]\<rparr> = Some 3"
    by (simp add: find_col_id_def find_col_name_def find_col_tac_def sheet_header_def
        lower_def lower_char_def strip_def isspace_def startswith_def)
  have h3: "find_col_desc \<lparr>header_cells = [Text ''ID'', Text ''Name'', Text ''Tactics''],
       data_rows = [[Text ''T1059'', Text ''Command and Scripting Interpreter'',
                     Text ''Execution'']]\<rparr> = None"
    by (simp add: find_col_desc_def sheet_header_def lower_def lower_char_def strip_def
        isspace_def startswith_def)
  show ?thesis
    using h1 h2 h3
      sheet_without_columns_skipped [where ws = "\<lparr>header_cells = [Text ''ID'', Text ''Tactics''],
       data_rows = [[Text ''T1059'', Text ''Execution'']]\<rparr>" and clock = "\<lambda>k. ''t1''"
        and tbl = "[]" and updated = 0]
      sheet_without_columns_skipped [where ws = "\<lparr>header_cells = [Text ''ID'', Text ''Name'', Text ''Tactics''],
       data_rows = [[Text ''T1059'', Text ''Command and Scripting Interpreter'',
                     Text ''Execution'']]\<rparr>" and clock = "\<lambda>k. ''t1''"
        and tbl = "[]" and updated = 0 and ci = 1 and cn = 2 and ct = 3]
    by simp
qed

section \<open>The tactics cell\<close>


lemma replace_slash:
  "replace ''/'' '','' s = map (\<lambda>c. if c = CHR ''/'' then CHR '','' else c) s"
  by (induction s) (simp_all add: startswith_def)

lemma replace_amp_none:
  "CHR ''&'' \<notin> set a \<Longrightarrow> replace '' & '' '','' a = a"
proof (induction a)
  case (Cons c a)
  then show ?case by (cases a) (auto simp: startswith_def)
qed simp

lemma replace_amp_comma:
  "CHR ''&'' \<notin> set a \<Longrightarrow>
     replace '' & '' '','' (a @ CHR '','' # b) = a @ CHR '','' # replace '' & '' '','' b"
proof (induction a)
  case Nil
  show ?case by (simp add: startswith_def)
next
  case (Cons c a)
  then show ?case by (cases a) (auto simp: startswith_def)
qed

lemma replace_amp_amp:
  "CHR ''&'' \<notin> set a \<Longrightarrow>
     replace '' & '' '','' (a @ '' & '' @ b) = a @ CHR '','' # replace '' & '' '','' b"
proof (induction a)
  case Nil
  show ?case by (simp add: startswith_def)
next
  case (Cons c a)
  then show ?case by (cases a) (auto simp: startswith_def)
qed

lemma split_none: "d \<notin> set a \<Longrightarrow> split d a = [a]"
  by (induction a) auto

lemma split_first: "d \<notin> set a \<Longrightarrow> split d (a @ d # b) = a # split d b"
  by (induction a) auto

lemma tactic_tokens_separators:
  assumes "CHR '','' \<notin> set a" and "CHR ''/'' \<notin> set a" and "CHR ''&'' \<notin> set a"
  shows "tactic_tokens a = [tactic_token a]"
    and "tactic_tokens (a @ '','' @ b) = tactic_token a # tactic_tokens b"
    and "tactic_tokens (a @ ''/'' @ b) = tactic_token a # tactic_tokens b"
    and "tactic_tokens (a @ '' & '' @ b) = tactic_token a # tactic_tokens b"
proof -
  let ?m = "map (\<lambda>c. if c = CHR ''/'' then CHR '','' else c)"
  have ma: "?m a = a" using assms(2) by (induction a) auto
  show "tactic_tokens a = [tactic_token a]"
    using assms by (simp add: tactic_tokens_def replace_slash ma replace_amp_none split_none)
  show "tactic_tokens (a @ '','' @ b) = tactic_token a # tactic_tokens b"
    using assms
    by (simp add: tactic_tokens_def replace_slash ma replace_amp_comma split_first)
  show "tactic_tokens (a @ ''/'' @ b) = tactic_token a # tactic_tokens b"
    using assms
    by (simp add: tactic_tokens_def replace_slash ma replace_amp_comma split_first)
  have "replace '' & '' '','' (a @ '' & '' @ ?m b) = a @ CHR '','' # replace '' & '' '','' (?m b)"
    using assms(3) by (rule replace_amp_amp)
  then show "tactic_tokens (a @ '' & '' @ b) = tactic_token a # tactic_tokens b"
    using assms
    by (simp add: tactic_tokens_def replace_slash ma split_first)
qed

lemma xlsx_tokens_count:
  "snd (xlsx_tokens clock tid nm ds tacs tbl n) = n + length (filter in_TACTIC_TITLES tacs)"
  by (induction tacs arbitrary: tbl n) simp_all

lemma set_keys_of_insert_or_ignore:
  "set (keys_of (insert_or_ignore r tbl)) = insert (row_key r) (set (keys_of tbl))"
  by (auto simp: insert_or_ignore_def keys_of_def)

lemma keys_of_xlsx_apply:
  "set (keys_of (xlsx_apply now tid tac nm ds tbl)) = insert (tid, tac) (set (keys_of tbl))"
  by (simp add: xlsx_apply_def set_keys_of_insert_or_ignore) (simp add: row_key_def)

lemma xlsx_tokens_keys:
  "set (keys_of (fst (xlsx_tokens clock tid nm ds tacs tbl n))) =
     set (keys_of tbl) \<union> {(tid, tac) | tac. tac \<in> set tacs \<and> in_TACTIC_TITLES tac}"
  by (induction tacs arbitrary: tbl n) (auto simp: keys_of_xlsx_apply)

lemma xlsx_tokens_none:
  "filter in_TACTIC_TITLES tacs = [] \<Longrightarrow> xlsx_tokens clock tid nm ds tacs tbl n = (tbl, n)"
  by (induction tacs arbitrary: tbl n) (auto split: if_splits)

lemma xlsx_row_no_tokens:
  assumes "or_empty_strip (cell_value row ct) = Return raw"
    and "raw = [] \<or> filter in_TACTIC_TITLES (tactic_tokens raw) = []"
  shows "fst (xlsx_row clock ci cn cd ct row tbl n) = tbl
     \<and> (snd (xlsx_row clock ci cn cd ct row tbl n) = Return n
        \<or> (\<exists>e. snd (xlsx_row clock ci cn cd ct row tbl n) = Raise e))"
  using assms
  by (auto simp: xlsx_row_def Let_def xlsx_tokens_none split: py.splits option.splits)

lemma in_TACTIC_TITLES_ORDER: "in_TACTIC_TITLES tac = (tac \<in> set TACTIC_ORDER)"
  by (simp add: in_TACTIC_TITLES_def TACTIC_TITLES_def TACTIC_ORDER_def)

lemma tokens_example:
  "tactic_tokens ''Initial Access, Execution'' = [''initial-access'', ''execution'']"
  by (simp add: tactic_tokens_def tactic_token_def startswith_def strip_def isspace_def
      lower_def lower_char_def)


text \<open>
  Claim C5, as the code has it. The tactics cell is cut at commas, at slashes and at
  an ampersand between two spaces: a piece that holds none of the characters comma,
  slash and ampersand is one token when it is the whole cell, and is the first token
  when one of the three separators follows it, the rest being cut the same way. A token
  is the piece stripped, lower-cased and with its spaces turned into hyphens. The
  registry is the fourteen entries of \<open>TACTIC_ORDER\<close>. The loop over the tokens
  raises nothing, counts exactly the tokens of the registry and touches exactly their
  pairs. A row whose tactics cell is empty, or none of whose tokens is in the registry,
  leaves the table as it is and adds nothing to the count. The cell
  \<open>Initial Access, Execution\<close> gives the two tokens \<open>initial-access\<close> and \<open>execution\<close>,
  both in the registry.
\<close>

theorem tactics_cell_tokens:
  "(CHR '','' \<notin> set a \<and> CHR ''/'' \<notin> set a \<and> CHR ''&'' \<notin> set a \<longrightarrow>
      tactic_tokens a = [tactic_token a]
      \<and> tactic_tokens (a @ '','' @ b) = tactic_token a # tactic_tokens b
      \<and> tactic_tokens (a @ ''/'' @ b) = tactic_token a # tactic_tokens b
      \<and> tactic_tokens (a @ '' & '' @ b) = tactic_token a # tactic_tokens b)
   \<and> tactic_token t = replace '' '' ''-'' (lower (strip t))
   \<and> in_TACTIC_TITLES tac = (tac \<in> set TACTIC_ORDER)
   \<and> snd (xlsx_tokens clock tid nm ds tacs tbl n) = n + length (filter in_TACTIC_TITLES tacs)
   \<and> set (keys_of (fst (xlsx_tokens clock tid nm ds tacs tbl n))) =
       set (keys_of tbl) \<union> {(tid, tac') | tac'. tac' \<in> set tacs \<and> in_TACTIC_TITLES tac'}
   \<and> (or_empty_strip (cell_value row ct) = Return raw
        \<and> (raw = [] \<or> filter in_TACTIC_TITLES (tactic_tokens raw) = []) \<longrightarrow>
        fst (xlsx_row clock ci cn cd ct row tbl n) = tbl
        \<and> (snd (xlsx_row clock ci cn cd ct row tbl n) = Return n
           \<or> (\<exists>e. snd (xlsx_row clock ci cn cd ct row tbl n) = Raise e)))
   \<and> tactic_tokens ''Initial Access, Execution'' = [''initial-access'', ''execution'']
   \<and> in_TACTIC_TITLES ''initial-access'' \<and> in_TACTIC_TITLES ''execution''"
proof -
  have a: "CHR '','' \<notin> set a \<and> CHR ''/'' \<notin> set a \<and> CHR ''&'' \<notin> set a \<longrightarrow>
      tactic_tokens a = [tactic_token a]
      \<and> tactic_tokens (a @ '','' @ b) = tactic_token a # tactic_tokens b
      \<and> tactic_tokens (a @ ''/'' @ b) = tactic_token a # tactic_tokens b
      \<and> tactic_tokens (a @ '' & '' @ b) = tactic_token a # tactic_tokens b"
    using tactic_tokens_separators(1) [of a] tactic_tokens_separators(2-4) [of a b]
    by blast
  have b: "or_empty_strip (cell_value row ct) = Return raw
        \<and> (raw = [] \<or> filter in_TACTIC_TITLES (tactic_tokens raw) = []) \<longrightarrow>
        fst (xlsx_row clock ci cn cd ct row tbl n) = tbl
        \<and> (snd (xlsx_row clock ci cn cd ct row tbl n) = Return n
           \<or> (\<exists>e. snd (xlsx_row clock ci cn cd ct row tbl n) = Raise e))"
    using xlsx_row_no_tokens [where row = row and ct = ct and raw = raw and clock = clock
        and ci = ci and cn = cn and cd = cd and tbl = tbl and n = n]
    by blast
  have c: "in_TACTIC_TITLES ''initial-access'' \<and> in_TACTIC_TITLES ''execution''"
    by (simp add: in_TACTIC_TITLES_def TACTIC_TITLES_def)
  show ?thesis
    using a b c tokens_example in_TACTIC_TITLES_ORDER [of tac]
      xlsx_tokens_count [where clock = clock and tid = tid and nm = nm and ds = ds
        and tacs = tacs and tbl = tbl and n = n]
      xlsx_tokens_keys [where clock = clock and tid = tid and nm = nm and ds = ds
        and tacs = tacs and tbl = tbl and n = n]
    by (simp add: tactic_token_def)
qed

theorem tactics_cell_tokens_witness:
  "CHR '','' \<notin> set ''Lateral Movement'' \<and> CHR ''/'' \<notin> set ''Lateral Movement''
   \<and> CHR ''&'' \<notin> set ''Lateral Movement''
   \<and> tactic_tokens (''Lateral Movement'' @ '' & '' @ ''Impact'')
       = tactic_token ''Lateral Movement'' # tactic_tokens ''Impact''
   \<and> or_empty_strip (cell_value [Text ''T1059'', Text ''Command and Scripting Interpreter'',
          Text ''Persistence and Execution''] 3) = Return ''Persistence and Execution''
   \<and> filter in_TACTIC_TITLES (tactic_tokens ''Persistence and Execution'') = []
   \<and> fst (xlsx_row (fixed_clock ''t1'') 1 2 None 3 [Text ''T1059'', Text ''Command and Scripting Interpreter'',
          Text ''Persistence and Execution''] [] 0) = []
   \<and> tactic_tokens (''Execution'' @ '','' @ CHR 0xA0 # ''Impact'') = [''execution'', ''impact'']"
proof -
  have h1: "CHR '','' \<notin> set ''Lateral Movement'' \<and> CHR ''/'' \<notin> set ''Lateral Movement''
      \<and> CHR ''&'' \<notin> set ''Lateral Movement''"
    by simp
  have h2: "or_empty_strip (cell_value [Text ''T1059'', Text ''Command and Scripting Interpreter'',
          Text ''Persistence and Execution''] 3) = Return ''Persistence and Execution''"
    by (simp add: or_empty_strip_def cell_value_def strip_def isspace_def)
  have h3: "filter in_TACTIC_TITLES (tactic_tokens ''Persistence and Execution'') = []"
    by (simp add: tactic_tokens_def tactic_token_def startswith_def strip_def isspace_def
        lower_def lower_char_def in_TACTIC_TITLES_def TACTIC_TITLES_def)
  have h4: "CHR '','' \<notin> set ''Execution'' \<and> CHR ''/'' \<notin> set ''Execution''
      \<and> CHR ''&'' \<notin> set ''Execution''"
    by simp
  have h5: "tactic_token ''Execution'' = ''execution''"
    by (simp add: tactic_token_def startswith_def strip_def isspace_def lower_def lower_char_def)
  have h6: "tactic_tokens (CHR 0xA0 # ''Impact'') = [''impact'']"
    by (simp add: tactic_tokens_def tactic_token_def startswith_def strip_def isspace_def
        lower_def lower_char_def)
  have h7: "tactic_tokens (''Execution'' @ '','' @ CHR 0xA0 # ''Impact'')
      = tactic_token ''Execution'' # tactic_tokens (CHR 0xA0 # ''Impact'')"
    using h4 tactics_cell_tokens [where a = "''Execution''" and b = "CHR 0xA0 # ''Impact''"]
    by blast
  have h8: "tactic_tokens (''Execution'' @ '','' @ CHR 0xA0 # ''Impact'') = [''execution'', ''impact'']"
    unfolding h7 h5 h6 by (rule refl)
  show ?thesis
    using h1 h2 h3 h8
      tactics_cell_tokens [where a = "''Lateral Movement''" and b = "''Impact''"]
      tactics_cell_tokens [where row = "[Text ''T1059'', Text ''Command and Scripting Interpreter'',
          Text ''Persistence and Execution'']" and ct = 3 and raw = "''Persistence and Execution''"
        and clock = "fixed_clock ''t1''" and ci = 1 and cn = 2 and cd = None and tbl = "[]"
        and n = 0]
    by blast
qed

text \<open>
  Claim C5 as stated fails: the word \<open>and\<close> is no separator. The cell
  \<open>Persistence and Execution\<close> is one token, which is not in the registry, and the row
  gives no candidate.
\<close>

theorem word_and_does_not_split:
  "tactic_tokens ''Persistence and Execution'' = [''persistence-and-execution'']
   \<and> \<not> in_TACTIC_TITLES ''persistence-and-execution''
   \<and> xlsx_row (fixed_clock ''t1'') 1 2 None 3 [Text ''T1059'', Text ''Command and Scripting Interpreter'',
          Text ''Persistence and Execution''] [] 0 = ([], Return 0)"
  by (simp add: xlsx_row_def str_or_empty_strip_def or_empty_strip_def cell_value_def
      tactic_tokens_def tactic_token_def startswith_def strip_def isspace_def
      lower_def lower_char_def in_TACTIC_TITLES_def TACTIC_TITLES_def)

section \<open>What the sources check\<close>


















section \<open>Replaying an import\<close>

lemma fold_fill_filled: "\<not> U s \<Longrightarrow> fold (fill U) ns s = s"
  by (induction ns) (simp_all add: fill_def)

lemma fold_fill_unfilled:
  "U s \<Longrightarrow> U s' \<Longrightarrow> ns \<noteq> [] \<Longrightarrow> fold (fill U) ns s = fold (fill U) ns s'"
  by (cases ns) (simp_all add: fill_def)

lemma fold_fill_idem: "fold (fill U) ns (fold (fill U) ns s) = fold (fill U) ns s"
proof (cases "U (fold (fill U) ns s)")
  case False
  then show ?thesis by (rule fold_fill_filled)
next
  case True
  have us: "U s"
  proof (rule ccontr)
    assume "\<not> U s"
    then have "fold (fill U) ns s = s" by (rule fold_fill_filled)
    with True \<open>\<not> U s\<close> show False by simp
  qed
  show ?thesis
  proof (cases "ns = []")
    case True
    then show ?thesis by simp
  next
    case False
    show ?thesis using fold_fill_unfilled [OF True us False] .
  qed
qed

lemma enrich_by_fields:
  "technique_id (enrich_by c r) = technique_id r"
  "tactic_id (enrich_by c r) = tactic_id r"
  "refs (enrich_by c r) = refs r"
  "created_at (enrich_by c r) = created_at r"
  "row_key (enrich_by c r) = row_key r"
  by (cases c; simp add: enrich_by_def enrich_row_def row_key_def)+

lemma enrich_by_name:
  "name (enrich_by c r) =
     (if cand_key c = row_key r
      then fill (unfilled_name (technique_id r)) (fst (snd (snd c))) (name r) else name r)"
  by (cases c)
    (auto simp: enrich_by_def enrich_row_def enrich_name_def cand_key_def row_key_def fill_def
      unfilled_name_def)

lemma enrich_by_description:
  "description (enrich_by c r) =
     (if cand_key c = row_key r
      then fill unfilled_description (snd (snd (snd c))) (description r) else description r)"
  by (cases c)
    (auto simp: enrich_by_def enrich_row_def enrich_description_def cand_key_def row_key_def
      fill_def unfilled_description_def)

lemma enrich_all_fields:
  "technique_id (enrich_all cs r) = technique_id r"
  "tactic_id (enrich_all cs r) = tactic_id r"
  "refs (enrich_all cs r) = refs r"
  "created_at (enrich_all cs r) = created_at r"
  "row_key (enrich_all cs r) = row_key r"
  by (induction cs arbitrary: r; simp add: enrich_all_def enrich_by_fields)+

lemma enrich_all_name:
  "name (enrich_all cs r) =
     fold (fill (unfilled_name (technique_id r)))
       (map (\<lambda>c. fst (snd (snd c))) (filter (\<lambda>c. cand_key c = row_key r) cs)) (name r)"
proof (induction cs arbitrary: r)
  case (Cons c cs)
  have "name (enrich_all (c # cs) r) = name (enrich_all cs (enrich_by c r))"
    by (simp add: enrich_all_def)
  then show ?case
    by (simp add: Cons.IH enrich_by_fields enrich_by_name)
qed (simp add: enrich_all_def)

lemma enrich_all_description:
  "description (enrich_all cs r) =
     fold (fill unfilled_description)
       (map (\<lambda>c. snd (snd (snd c))) (filter (\<lambda>c. cand_key c = row_key r) cs)) (description r)"
proof (induction cs arbitrary: r)
  case (Cons c cs)
  have "description (enrich_all (c # cs) r) = description (enrich_all cs (enrich_by c r))"
    by (simp add: enrich_all_def)
  then show ?case
    by (simp add: Cons.IH enrich_by_fields enrich_by_description)
qed (simp add: enrich_all_def)

lemma enrich_all_idem: "enrich_all cs (enrich_all cs r) = enrich_all cs r"
  by (rule ttp.equality)
    (simp_all add: enrich_all_fields enrich_all_name enrich_all_description fold_fill_idem)


lemma apply_cand_map:
  "apply_cand now c t =
     map (enrich_by c)
       (insert_or_ignore
          \<lparr>technique_id = fst c, tactic_id = fst (snd c), name = Some (fst (snd (snd c))),
           description = Some (snd (snd (snd c))), refs = [], created_at = now\<rparr> t)"
  by (cases c) (simp add: apply_cand_def xlsx_apply_def update_enrich_def enrich_by_def)

lemma apply_cand_keys:
  "set (keys_of (apply_cand now c t)) = insert (cand_key c) (set (keys_of t))"
  by (cases c) (simp add: apply_cand_def keys_of_xlsx_apply cand_key_def)

lemma apply_cand_present:
  "cand_key c \<in> set (keys_of t) \<Longrightarrow> apply_cand now c t = map (enrich_by c) t"
  by (cases c) (simp add: apply_cand_map insert_or_ignore_def row_key_def cand_key_def)

lemma keys_of_map_enrich_by: "keys_of (map (enrich_by c) t) = keys_of t"
  by (simp add: keys_of_def enrich_by_fields)

lemma apply_cands_present:
  "set (map cand_key cs) \<subseteq> set (keys_of t) \<Longrightarrow> apply_cands clock k cs t = map (enrich_all cs) t"
proof (induction cs arbitrary: t k)
  case Nil
  show ?case by (simp add: enrich_all_def)
next
  case (Cons c cs)
  have 1: "apply_cand (clock k) c t = map (enrich_by c) t"
    using Cons.prems by (simp add: apply_cand_present)
  have 2: "set (map cand_key cs) \<subseteq> set (keys_of (map (enrich_by c) t))"
    using Cons.prems by (simp add: keys_of_map_enrich_by)
  show ?case
    using Cons.IH [OF 2] by (simp add: 1 enrich_all_def)
qed

lemma apply_cands_append:
  "apply_cands clock k (cs @ cs') t =
     apply_cands clock (k + length cs) cs' (apply_cands clock k cs t)"
  by (induction cs arbitrary: k t) simp_all

lemma apply_cands_keys:
  "set (keys_of (apply_cands clock k cs t)) = set (keys_of t) \<union> set (map cand_key cs)"
  by (induction cs arbitrary: k t) (auto simp: apply_cand_keys)

lemma enrich_by_other: "row_key r \<noteq> cand_key c \<Longrightarrow> enrich_by c r = r"
  by (cases c) (auto simp: enrich_by_def enrich_row_def row_key_def cand_key_def)

lemma enrich_all_other: "row_key r \<notin> set (map cand_key cs) \<Longrightarrow> enrich_all cs r = r"
  by (induction cs) (auto simp: enrich_all_def enrich_by_other)

lemma enrich_all_snoc: "enrich_all (cs @ [c]) r = enrich_by c (enrich_all cs r)"
  by (simp add: enrich_all_def)

lemma apply_cands_rows:
  "r \<in> set (apply_cands clock k cs t) \<Longrightarrow> \<exists>r0. r = enrich_all cs r0"
proof (induction cs arbitrary: r rule: rev_induct)
  case Nil
  show ?case by (intro exI [of _ r]) (simp add: enrich_all_def)
next
  case (snoc c cs)
  let ?D = "apply_cands clock k cs t"
  let ?new = "\<lparr>technique_id = fst c, tactic_id = fst (snd c), name = Some (fst (snd (snd c))),
           description = Some (snd (snd (snd c))), refs = [],
           created_at = clock (k + length cs)\<rparr>"
  have "r \<in> set (map (enrich_by c) (insert_or_ignore ?new ?D))"
    using snoc.prems by (simp add: apply_cands_append apply_cand_map)
  then obtain r' where r': "r = enrich_by c r'" "r' \<in> set (insert_or_ignore ?new ?D)"
    by auto
  show ?case
  proof (cases "r' \<in> set ?D")
    case True
    then obtain r0 where "r' = enrich_all cs r0" using snoc.IH by blast
    then show ?thesis using r'(1) by (intro exI [of _ r0]) (simp add: enrich_all_snoc)
  next
    case False
    then have new: "r' = ?new" "row_key ?new \<notin> set (keys_of ?D)"
      using r'(2) by (auto simp: insert_or_ignore_def split: if_splits)
    have "row_key ?new \<notin> set (map cand_key cs)"
      using new(2) by (simp add: apply_cands_keys)
    then have "enrich_all cs ?new = ?new" by (rule enrich_all_other)
    then show ?thesis
      using r'(1) new(1) by (intro exI [of _ ?new]) (simp add: enrich_all_snoc)
  qed
qed

lemma apply_cands_replay:
  "apply_cands clock' k' cs (apply_cands clock k cs t) = apply_cands clock k cs t"
proof -
  let ?D = "apply_cands clock k cs t"
  have "set (map cand_key cs) \<subseteq> set (keys_of ?D)"
    by (simp add: apply_cands_keys)
  then have "apply_cands clock' k' cs ?D = map (enrich_all cs) ?D"
    by (rule apply_cands_present)
  moreover have "map (enrich_all cs) ?D = ?D"
  proof (rule map_idI)
    fix r assume "r \<in> set ?D"
    then obtain r0 where "r = enrich_all cs r0" using apply_cands_rows by blast
    then show "enrich_all cs r = r" by (simp add: enrich_all_idem)
  qed
  ultimately show ?thesis by simp
qed


lemma xlsx_tokens_plan:
  "xlsx_tokens clock tid nm ds tacs t n =
     (apply_cands clock n (map (\<lambda>tac. (tid, tac, nm, ds)) (filter in_TACTIC_TITLES tacs)) t,
      n + length (filter in_TACTIC_TITLES tacs))"
  by (induction tacs arbitrary: t n) (simp_all add: apply_cand_def)

lemma plan_skip: "plan_of (\<lambda>clock t n. (t, Return n)) [] None"
  by (simp add: plan_of_def ret_def)

lemma plan_raise: "plan_of (\<lambda>clock t n. (t, Raise ex)) [] (Some ex)"
  by (simp add: plan_of_def ret_def)

lemma plan_tokens:
  "plan_of (\<lambda>clock t n. apsnd Return (xlsx_tokens clock tid nm ds tacs t n))
     (map (\<lambda>tac. (tid, tac, nm, ds)) (filter in_TACTIC_TITLES tacs)) None"
  by (simp add: plan_of_def ret_def xlsx_tokens_plan)

lemma plan_seq:
  assumes "plan_of F cs e" and "plan_of G cs' e'"
  shows "plan_of (seq F G) (if e = None then cs @ cs' else cs) (if e = None then e' else e)"
  using assms
  by (cases e; cases e') (auto simp: plan_of_def seq_def ret_def apply_cands_append add.assoc)

lemma xlsx_row_plan: "\<exists>cs e. plan_of (\<lambda>clock. xlsx_row clock ci cn cd ct row) cs e"
proof -
  let ?F = "\<lambda>clock. xlsx_row clock ci cn cd ct row"
  let ?tid = "str_or_empty_strip (cell_value row ci)"
  let ?ds = "case cd of None \<Rightarrow> Return [] | Some c \<Rightarrow> or_empty_strip (cell_value row c)"
  consider (skip) "?F = (\<lambda>clock t n. (t, Return n))"
    | (raise) ex where "?F = (\<lambda>clock t n. (t, Raise ex))"
    | (tokens) tid nm ds tacs where
        "?F = (\<lambda>clock t n. apsnd Return (xlsx_tokens clock tid nm ds tacs t n))"
  proof (cases "startswith ?tid ''T''")
    case False
    then have "?F = (\<lambda>clock t n. (t, Return n))"
      by (simp add: xlsx_row_def fun_eq_iff)
    then show ?thesis by (rule skip)
  next
    case T: True
    show ?thesis
    proof (cases "or_empty_strip (cell_value row cn)")
      case (Raise ex)
      then have "?F = (\<lambda>clock t n. (t, Raise ex))"
        using T by (simp add: xlsx_row_def fun_eq_iff)
      then show ?thesis by (rule raise)
    next
      case nm: (Return nm)
      show ?thesis
      proof (cases ?ds)
        case (Raise ex)
        then have "?F = (\<lambda>clock t n. (t, Raise ex))"
          using T nm by (simp add: xlsx_row_def fun_eq_iff)
        then show ?thesis by (rule raise)
      next
        case ds: (Return ds)
        show ?thesis
        proof (cases "or_empty_strip (cell_value row ct)")
          case (Raise ex)
          then have "?F = (\<lambda>clock t n. (t, Raise ex))"
            using T nm ds by (simp add: xlsx_row_def fun_eq_iff)
          then show ?thesis by (rule raise)
        next
          case raw: (Return raw)
          show ?thesis
          proof (cases "raw = []")
            case True
            then have "?F = (\<lambda>clock t n. (t, Return n))"
              using T nm ds raw by (simp add: xlsx_row_def fun_eq_iff)
            then show ?thesis by (rule skip)
          next
            case False
            then have "?F = (\<lambda>clock t n. apsnd Return
                (xlsx_tokens clock ?tid nm ds (tactic_tokens raw) t n))"
              using T nm ds raw by (simp add: xlsx_row_def fun_eq_iff)
            then show ?thesis by (rule tokens)
          qed
        qed
      qed
    qed
  qed
  then show ?thesis
  proof cases
    case skip
    show ?thesis unfolding skip using plan_skip by blast
  next
    case raise
    show ?thesis unfolding raise using plan_raise by blast
  next
    case tokens
    show ?thesis
      unfolding tokens using plan_tokens by blast
  qed
qed

lemma xlsx_rows_plan: "\<exists>cs e. plan_of (\<lambda>clock. xlsx_rows clock ci cn cd ct rows) cs e"
proof (induction rows)
  case Nil
  have eq: "(\<lambda>clock. xlsx_rows clock ci cn cd ct []) = (\<lambda>clock t n. (t, Return n))"
    by (simp add: fun_eq_iff)
  show ?case unfolding eq using plan_skip by blast
next
  case (Cons row rows)
  obtain cs e where 1: "plan_of (\<lambda>clock. xlsx_row clock ci cn cd ct row) cs e"
    using xlsx_row_plan by blast
  obtain cs' e' where 2: "plan_of (\<lambda>clock. xlsx_rows clock ci cn cd ct rows) cs' e'"
    using Cons.IH by blast
  have eq: "(\<lambda>clock. xlsx_rows clock ci cn cd ct (row # rows)) =
      seq (\<lambda>clock. xlsx_row clock ci cn cd ct row) (\<lambda>clock. xlsx_rows clock ci cn cd ct rows)"
    by (simp add: fun_eq_iff seq_def)
  show ?case unfolding eq using plan_seq [OF 1 2] by blast
qed

lemma xlsx_sheet_plan: "\<exists>cs e. plan_of (\<lambda>clock. xlsx_sheet clock ws) cs e"
proof (cases "not_col (find_col_id ws) \<or> not_col (find_col_name ws) \<or> not_col (find_col_tac ws)")
  case True
  then have eq: "(\<lambda>clock. xlsx_sheet clock ws) = (\<lambda>clock t n. (t, Return n))"
    by (simp add: fun_eq_iff xlsx_sheet_def)
  show ?thesis unfolding eq using plan_skip by blast
next
  case False
  then have eq: "(\<lambda>clock. xlsx_sheet clock ws) =
      (\<lambda>clock. xlsx_rows clock (the (find_col_id ws)) (the (find_col_name ws))
             (if not_col (find_col_desc ws) then None else find_col_desc ws)
             (the (find_col_tac ws)) (data_rows ws))"
    by (simp add: fun_eq_iff xlsx_sheet_def)
  show ?thesis unfolding eq by (rule xlsx_rows_plan)
qed

lemma xlsx_sheets_plan: "\<exists>cs e. plan_of (\<lambda>clock. xlsx_sheets clock wss) cs e"
proof (induction wss)
  case Nil
  have eq: "(\<lambda>clock. xlsx_sheets clock []) = (\<lambda>clock t n. (t, Return n))"
    by (simp add: fun_eq_iff)
  show ?case unfolding eq using plan_skip by blast
next
  case (Cons ws wss)
  obtain cs e where 1: "plan_of (\<lambda>clock. xlsx_sheet clock ws) cs e"
    using xlsx_sheet_plan by blast
  obtain cs' e' where 2: "plan_of (\<lambda>clock. xlsx_sheets clock wss) cs' e'"
    using Cons.IH by blast
  have eq: "(\<lambda>clock. xlsx_sheets clock (ws # wss)) =
      seq (\<lambda>clock. xlsx_sheet clock ws) (\<lambda>clock. xlsx_sheets clock wss)"
    by (simp add: fun_eq_iff seq_def)
  show ?case unfolding eq using plan_seq [OF 1 2] by blast
qed

lemma xlsx_sheets_replay:
  "fst (xlsx_sheets clock' wss (fst (xlsx_sheets clock wss t n)) n') = fst (xlsx_sheets clock wss t n)"
proof -
  obtain cs e where "plan_of (\<lambda>clock. xlsx_sheets clock wss) cs e"
    using xlsx_sheets_plan by blast
  then show ?thesis by (simp add: plan_of_def apply_cands_replay)
qed

lemma xlsx_sheets_result:
  "snd (xlsx_sheets clock' wss t' n) = snd (xlsx_sheets clock wss t n)"
proof -
  obtain cs e where "plan_of (\<lambda>clock. xlsx_sheets clock wss) cs e"
    using xlsx_sheets_plan by blast
  then show ?thesis by (simp add: plan_of_def)
qed


lemma insert_all_present:
  "set (map row_key rs) \<subseteq> set (keys_of D) \<Longrightarrow> insert_all rs D = D"
  by (induction rs) (simp_all add: insert_or_ignore_def)

lemma insert_all_keys:
  "set (keys_of (insert_all rs t)) = set (keys_of t) \<union> set (map row_key rs)"
  by (induction rs arbitrary: t) (auto simp: set_keys_of_insert_or_ignore)

lemma stix_rows_keys: "map row_key (stix_rows now' obj) = map row_key (stix_rows now obj)"
  by (simp add: stix_rows_def row_key_def split: option.splits)

lemma keys_subset_insert_or_ignore:
  "set (keys_of t0) \<subseteq> set (keys_of t) \<Longrightarrow> set (keys_of t0) \<subseteq> set (keys_of (insert_or_ignore r t))"
  by (auto simp: set_keys_of_insert_or_ignore)

lemma import_stix_grows:
  "set (keys_of t) \<subseteq> set (keys_of (fst (import_stix now objs t n)))"
  by (rule import_stix_pres [where P = "\<lambda>x. set (keys_of t) \<subseteq> set (keys_of x)"])
    (simp_all add: keys_subset_insert_or_ignore)

lemma import_layer_grows:
  "set (keys_of t) \<subseteq> set (keys_of (fst (import_layer now ts t n)))"
  by (rule import_layer_pres [where P = "\<lambda>x. set (keys_of t) \<subseteq> set (keys_of x)"])
    (simp_all add: keys_subset_insert_or_ignore)

lemma import_stix_noop:
  "set (keys_of (fst (import_stix now objs t n))) \<subseteq> set (keys_of D)
     \<Longrightarrow> fst (import_stix now' objs D n') = D"
proof (induction now objs t n arbitrary: n' rule: import_stix.induct)
  case (3 now obj objs tbl inserted)
  let ?t = "insert_all (stix_rows now obj) tbl"
  have "set (keys_of ?t) \<subseteq> set (keys_of (fst (import_stix now objs ?t
      (inserted + length (stix_rows now obj)))))"
    by (rule import_stix_grows)
  then have "set (map row_key (stix_rows now obj)) \<subseteq> set (keys_of D)"
    using "3.prems" by (auto simp: insert_all_keys)
  then have "insert_all (stix_rows now' obj) D = D"
    by (intro insert_all_present) (simp add: stix_rows_keys [of now' obj now])
  then show ?case using "3.IH" "3.prems" by simp
qed simp_all

lemma import_layer_noop:
  "set (keys_of (fst (import_layer now ts t n))) \<subseteq> set (keys_of D)
     \<Longrightarrow> fst (import_layer now' ts D n') = D"
proof (induction now ts t n arbitrary: n' rule: import_layer.induct)
  case (3 now t ts tbl inserted)
  let ?tech = "or_empty (techniqueID t)"
  let ?tac = "lower (or_empty (layer_tactic t))"
  show ?case
  proof (cases "?tech = [] \<or> ?tac = []")
    case True
    have sub: "set (keys_of (fst (import_layer now ts tbl inserted))) \<subseteq> set (keys_of D)"
      using "3.prems" True by (auto simp: Let_def)
    have "fst (import_layer now' ts D n') = D"
      by (rule "3.IH"(1) [OF refl refl True sub])
    then show ?thesis using True by (auto simp: Let_def)
  next
    case False
    let ?r = "\<lparr>technique_id = ?tech, tactic_id = ?tac, name = Some ?tech,
                    description = Some [], refs = [], created_at = now\<rparr>"
    have sub: "set (keys_of (fst (import_layer now ts (insert_or_ignore ?r tbl) (Suc inserted))))
        \<subseteq> set (keys_of D)"
      using "3.prems" False by (auto simp: Let_def)
    have "set (keys_of (insert_or_ignore ?r tbl))
        \<subseteq> set (keys_of (fst (import_layer now ts (insert_or_ignore ?r tbl) (Suc inserted))))"
      by (rule import_layer_grows)
    then have "(?tech, ?tac) \<in> set (keys_of D)"
      using sub by (auto simp: set_keys_of_insert_or_ignore row_key_def)
    then have ins: "insert_or_ignore (?r\<lparr>created_at := now'\<rparr>) D = D"
      by (simp add: insert_or_ignore_def row_key_def)
    have "fst (import_layer now' ts D (Suc n')) = D"
      by (rule "3.IH"(2) [OF refl refl False sub])
    then show ?thesis using False ins by (auto simp: Let_def)
  qed
qed simp_all

lemma import_stix_result:
  "snd (import_stix now' objs t' n) = snd (import_stix now objs t n)"
proof (induction now objs t n arbitrary: t' rule: import_stix.induct)
  case (3 now obj objs tbl inserted)
  have "length (stix_rows now' obj) = length (stix_rows now obj)"
    using stix_rows_keys [of now' obj now] by (metis length_map)
  then show ?case using "3.IH" by simp
qed simp_all

lemma import_layer_result:
  "snd (import_layer now' ts t' n) = snd (import_layer now ts t n)"
  by (induction now ts t n arbitrary: t' rule: import_layer.induct) (auto simp: Let_def)

lemma snd_finish: "snd (finish db res) = snd res"
  by (cases res) (auto simp: finish_def split: py.splits)

text \<open>
  Claim C3, as the code has it. Importing a document a second time, at whatever later
  clock readings, into the table that the first import left, leaves every row and every
  field of the table as the first import left it; this holds for the bundle, for the
  layer and for the workbook, also when the import raises part way. What the import
  returns depends on the document alone: the second pass returns the same count as the
  first, since the count is the number of candidates processed, not of rows changed.
\<close>

theorem replay_leaves_catalog:
  "ttps (fst (try_import_from_stix_or_layer now' js
            (fst (try_import_from_stix_or_layer now js db))))
     = ttps (fst (try_import_from_stix_or_layer now js db))
   \<and> snd (try_import_from_stix_or_layer now' js db') = snd (try_import_from_stix_or_layer now js db)
   \<and> ttps (fst (try_enrich_from_xlsx openpyxl clock' f
            (fst (try_enrich_from_xlsx openpyxl clock f db))))
     = ttps (fst (try_enrich_from_xlsx openpyxl clock f db))
   \<and> snd (try_enrich_from_xlsx openpyxl clock' f db') = snd (try_enrich_from_xlsx openpyxl clock f db)"
proof -
  have a: "ttps (fst (try_import_from_stix_or_layer now' js
            (fst (try_import_from_stix_or_layer now js db))))
     = ttps (fst (try_import_from_stix_or_layer now js db))"
    by (cases js)
      (simp_all add: try_import_from_stix_or_layer_def ttps_finish
        import_stix_noop [OF order_refl] import_layer_noop [OF order_refl])
  have b: "snd (try_import_from_stix_or_layer now' js db')
      = snd (try_import_from_stix_or_layer now js db)"
    using import_stix_result [of now' _ "ttps db'" 0 now "ttps db"]
      import_layer_result [of now' _ "ttps db'" 0 now "ttps db"]
    by (cases js) (simp_all add: try_import_from_stix_or_layer_def snd_finish)
  have c: "ttps (fst (try_enrich_from_xlsx openpyxl clock' f
            (fst (try_enrich_from_xlsx openpyxl clock f db))))
     = ttps (fst (try_enrich_from_xlsx openpyxl clock f db))"
    by (cases f) (simp_all add: try_enrich_from_xlsx_def ttps_finish xlsx_sheets_replay)
  have d: "snd (try_enrich_from_xlsx openpyxl clock' f db')
      = snd (try_enrich_from_xlsx openpyxl clock f db)"
    using xlsx_sheets_result [of clock' _ "ttps db'" 0 clock "ttps db"]
    by (cases f) (simp_all add: try_enrich_from_xlsx_def snd_finish)
  show ?thesis using a b c d by blast
qed

text \<open>
  Claim C3 as stated fails: a layer with one entry, imported twice, changes nothing the
  second time, and the second import reports 1, not 0.
\<close>

theorem second_pass_reports_same_count:
  "snd (try_import_from_stix_or_layer ''t2'' (Layer [LayerTechnique \<lparr>techniqueID = Some ''T1059'', layer_tactic = Some ''execution''\<rparr>])
          (fst (try_import_from_stix_or_layer ''t1'' (Layer [LayerTechnique \<lparr>techniqueID = Some ''T1059'', layer_tactic = Some ''execution''\<rparr>]) fresh_db))) = Return 1
   \<and> ttps (fst (try_import_from_stix_or_layer ''t2'' (Layer [LayerTechnique \<lparr>techniqueID = Some ''T1059'', layer_tactic = Some ''execution''\<rparr>])
          (fst (try_import_from_stix_or_layer ''t1'' (Layer [LayerTechnique \<lparr>techniqueID = Some ''T1059'', layer_tactic = Some ''execution''\<rparr>]) fresh_db))))
     = ttps (fst (try_import_from_stix_or_layer ''t1'' (Layer [LayerTechnique \<lparr>techniqueID = Some ''T1059'', layer_tactic = Some ''execution''\<rparr>]) fresh_db))"
  by (simp add: try_import_from_stix_or_layer_def finish_def commit_def Let_def or_empty_def
      lower_def lower_char_def insert_or_ignore_def keys_of_def row_key_def fresh_db_def)


theorem replay_leaves_catalog_witness:
  "ttps (fst (try_import_from_stix_or_layer ''t2'' (Layer [LayerTechnique \<lparr>techniqueID = Some ''T1059'', layer_tactic = Some ''execution''\<rparr>])
            (fst (try_import_from_stix_or_layer ''t1'' (Layer [LayerTechnique \<lparr>techniqueID = Some ''T1059'', layer_tactic = Some ''execution''\<rparr>]) fresh_db))))
     = ttps (fst (try_import_from_stix_or_layer ''t1'' (Layer [LayerTechnique \<lparr>techniqueID = Some ''T1059'', layer_tactic = Some ''execution''\<rparr>]) fresh_db))
   \<and> ttps (fst (try_enrich_from_xlsx True (fixed_clock ''t4'') (Workbook [\<lparr>header_cells = [Text ''ID'', Text ''Name'', Text ''Tactics''],
       data_rows = [[Text ''T1059'', Text ''Command and Scripting Interpreter'',
                     Text ''Execution'']]\<rparr>])
            (fst (try_enrich_from_xlsx True (fixed_clock ''t3'') (Workbook [\<lparr>header_cells = [Text ''ID'', Text ''Name'', Text ''Tactics''],
       data_rows = [[Text ''T1059'', Text ''Command and Scripting Interpreter'',
                     Text ''Execution'']]\<rparr>]) fresh_db))))
     = ttps (fst (try_enrich_from_xlsx True (fixed_clock ''t3'') (Workbook [\<lparr>header_cells = [Text ''ID'', Text ''Name'', Text ''Tactics''],
       data_rows = [[Text ''T1059'', Text ''Command and Scripting Interpreter'',
                     Text ''Execution'']]\<rparr>]) fresh_db))
   \<and> snd (try_enrich_from_xlsx True (fixed_clock ''t4'') (Workbook [\<lparr>header_cells = [Text ''ID'', Text ''Name'', Text ''Tactics''],
       data_rows = [[Text ''T1059'', Text ''Command and Scripting Interpreter'',
                     Text ''Execution'']]\<rparr>])
            (fst (try_enrich_from_xlsx True (fixed_clock ''t3'') (Workbook [\<lparr>header_cells = [Text ''ID'', Text ''Name'', Text ''Tactics''],
       data_rows = [[Text ''T1059'', Text ''Command and Scripting Interpreter'',
                     Text ''Execution'']]\<rparr>]) fresh_db)))
     = snd (try_enrich_from_xlsx True (fixed_clock ''t3'') (Workbook [\<lparr>header_cells = [Text ''ID'', Text ''Name'', Text ''Tactics''],
       data_rows = [[Text ''T1059'', Text ''Command and Scripting Interpreter'',
                     Text ''Execution'']]\<rparr>]) fresh_db)"
  using replay_leaves_catalog [where now = "''t1''" and now' = "''t2''" and js = "(Layer [LayerTechnique \<lparr>techniqueID = Some ''T1059'', layer_tactic = Some ''execution''\<rparr>])"
      and db = fresh_db and openpyxl = True and clock = "fixed_clock ''t3''"
      and clock' = "fixed_clock ''t4''" and f = "(Workbook [\<lparr>header_cells = [Text ''ID'', Text ''Name'', Text ''Tactics''],
       data_rows = [[Text ''T1059'', Text ''Command and Scripting Interpreter'',
                     Text ''Execution'']]\<rparr>])"
      and db' = "fst (try_enrich_from_xlsx True (fixed_clock ''t3'') (Workbook [\<lparr>header_cells = [Text ''ID'', Text ''Name'', Text ''Tactics''],
       data_rows = [[Text ''T1059'', Text ''Command and Scripting Interpreter'',
                     Text ''Execution'']]\<rparr>]) fresh_db)"]
  by blast

section \<open>The flag and the total\<close>


lemma try_import_result:
  "snd (try_import_from_stix_or_layer now' js db') = snd (try_import_from_stix_or_layer now js db)"
  using import_stix_result [of now' _ "ttps db'" 0 now "ttps db"]
    import_layer_result [of now' _ "ttps db'" 0 now "ttps db"]
  by (cases js) (simp_all add: try_import_from_stix_or_layer_def snd_finish)

lemma try_enrich_result:
  "snd (try_enrich_from_xlsx openpyxl clock' f db') = snd (try_enrich_from_xlsx openpyxl clock f db)"
  using xlsx_sheets_result [of clock' _ "ttps db'" 0 clock "ttps db"]
  by (cases f) (simp_all add: try_enrich_from_xlsx_def snd_finish)

lemma load_json_candidates_total:
  "snd (load_json_candidates ps db' tot) = snd (load_json_candidates ps db tot)"
proof (induction ps arbitrary: db db' tot)
  case (Cons p ps)
  obtain f now where p: "p = (f, now)" by (cases p)
  show ?case
  proof (cases f)
    case JsonMissing
    then show ?thesis using Cons.IH [where db' = db' and db = db and tot = tot] by (simp add: p)
  next
    case JsonInvalid
    then show ?thesis using Cons.IH [where db' = db' and db = db and tot = tot] by (simp add: p)
  next
    case (JsonDoc js)
    obtain d1 r1 where t1: "try_import_from_stix_or_layer now js db = (d1, r1)"
      by (cases "try_import_from_stix_or_layer now js db")
    obtain d2 r2 where t2: "try_import_from_stix_or_layer now js db' = (d2, r2)"
      by (cases "try_import_from_stix_or_layer now js db'")
    have r: "r2 = r1"
      using try_import_result [of now js db' now db] by (simp add: t1 t2)
    show ?thesis
    proof (cases r1)
      case (Return m)
      then show ?thesis
        using Cons.IH [where db' = d2 and db = d1 and tot = "tot + m"]
        by (simp add: p JsonDoc t1 t2 r)
    next
      case (Raise ex)
      then show ?thesis
        using Cons.IH [where db' = d2 and db = d1 and tot = tot]
        by (simp add: p JsonDoc t1 t2 r)
    qed
  qed
qed simp

lemma load_xlsx_candidates_total:
  "snd (load_xlsx_candidates openpyxl ps db' tot) = snd (load_xlsx_candidates openpyxl ps db tot)"
proof (induction ps arbitrary: db db' tot)
  case (Cons p ps)
  obtain f clock where p: "p = (f, clock)" by (cases p)
  show ?case
  proof (cases "f = XlsxMissing")
    case True
    then show ?thesis using Cons.IH [where db' = db' and db = db and tot = tot] by (simp add: p)
  next
    case False
    obtain d1 r1 where t1: "try_enrich_from_xlsx openpyxl clock f db = (d1, r1)"
      by (cases "try_enrich_from_xlsx openpyxl clock f db")
    obtain d2 r2 where t2: "try_enrich_from_xlsx openpyxl clock f db' = (d2, r2)"
      by (cases "try_enrich_from_xlsx openpyxl clock f db'")
    have r: "r2 = r1"
      using try_enrich_result [of openpyxl clock f db' clock db] by (simp add: t1 t2)
    show ?thesis
    proof (cases r1)
      case (Return m)
      then show ?thesis
        using Cons.IH [where db' = d2 and db = d1 and tot = "tot + m"] False
        by (simp add: p load_xlsx_candidates_Cons t1 t2 r)
    next
      case (Raise ex)
      then show ?thesis
        using Cons.IH [where db' = d2 and db = d1 and tot = tot] False
        by (simp add: p load_xlsx_candidates_Cons t1 t2 r)
    qed
  qed
qed simp

lemma snd_admin_load_mitre:
  "snd (admin_load_mitre e db) =
     snd (load_xlsx_candidates (have_openpyxl e) (xlsx_candidates e)
           (fst (load_json_candidates (json_candidates e) db 0))
           (snd (load_json_candidates (json_candidates e) db 0)))"
  by (simp add: admin_load_mitre_def split: prod.splits)

lemma admin_load_mitre_total:
  "snd (admin_load_mitre e db') = snd (admin_load_mitre e db)"
  by (simp add: snd_admin_load_mitre load_json_candidates_total [of _ db' 0 db]
      load_xlsx_candidates_total
        [of _ _ "fst (load_json_candidates (json_candidates e) db' 0)" _
          "fst (load_json_candidates (json_candidates e) db 0)"])

text \<open>
  Claim C8, as the code has it. After \<open>admin_load_mitre\<close> the flag \<open>mitre_loaded\<close> reads
  true exactly if it read true before or the total of this run is positive; when the
  total is positive the flag is committed. The same holds for the whole request. Once
  the committed flag is true, it is true after any further requests, whatever they
  import. The total is the sum of what the imports that did not raise returned, that is
  the number of candidates they processed: it is the same from every state of the
  catalog, whether or not a row changes.
\<close>

theorem populated_flag:
  "mitre_loaded (fst (admin_load_mitre e db))
     = (mitre_loaded db \<or> 0 < snd (admin_load_mitre e db))
   \<and> (0 < snd (admin_load_mitre e db) \<longrightarrow>
        saved_settings (fst (admin_load_mitre e db)) ''mitre_loaded'' = Some ''1'')
   \<and> mitre_loaded (serve now (LoadMitre e) db)
     = (mitre_loaded (get_db db)
        \<or> 0 < snd (admin_load_mitre e (seed_minimal_ttps now (get_db db))))
   \<and> (mitre_loaded (get_db db) \<longrightarrow> mitre_loaded (get_db (serve_all reqs db)))
   \<and> snd (admin_load_mitre e db') = snd (admin_load_mitre e db)"
proof -
  have a: "mitre_loaded (fst (admin_load_mitre e db))
     = (mitre_loaded db \<or> 0 < snd (admin_load_mitre e db))"
    using admin_load_mitre_settings [of e db]
    by (cases "snd (admin_load_mitre e db) = 0") (auto simp: mitre_loaded_iff same_settings_def)
  have b: "0 < snd (admin_load_mitre e db) \<longrightarrow>
        saved_settings (fst (admin_load_mitre e db)) ''mitre_loaded'' = Some ''1''"
    using admin_load_mitre_settings [of e db] by simp
  have c: "mitre_loaded (serve now (LoadMitre e) db)
     = (mitre_loaded (get_db db)
        \<or> 0 < snd (admin_load_mitre e (seed_minimal_ttps now (get_db db))))"
    by (simp add: mitre_loaded_iff serve_settings serve_saved_settings)
      (simp add: get_db_def)
  have d: "mitre_loaded (get_db db) \<longrightarrow> mitre_loaded (get_db (serve_all reqs db))"
    using serve_all_flag [of db reqs] by (simp add: mitre_loaded_iff get_db_def)
  show ?thesis using a b c d admin_load_mitre_total [of e db' db] by blast
qed

theorem populated_flag_witness:
  "\<not> mitre_loaded fresh_db
   \<and> 0 < snd (admin_load_mitre \<lparr>json_candidates =
        [(JsonDoc (Layer [LayerTechnique
            \<lparr>techniqueID = Some ''T1059'', layer_tactic = Some ''execution''\<rparr>]), ''t1'')],
      xlsx_candidates = [], have_openpyxl = True\<rparr> fresh_db)
   \<and> mitre_loaded (fst (admin_load_mitre \<lparr>json_candidates =
        [(JsonDoc (Layer [LayerTechnique
            \<lparr>techniqueID = Some ''T1059'', layer_tactic = Some ''execution''\<rparr>]), ''t1'')],
      xlsx_candidates = [], have_openpyxl = True\<rparr> fresh_db))
   \<and> saved_settings (fst (admin_load_mitre \<lparr>json_candidates =
        [(JsonDoc (Layer [LayerTechnique
            \<lparr>techniqueID = Some ''T1059'', layer_tactic = Some ''execution''\<rparr>]), ''t1'')],
      xlsx_candidates = [], have_openpyxl = True\<rparr> fresh_db)) ''mitre_loaded'' = Some ''1''
   \<and> mitre_loaded (get_db (fresh_db\<lparr>saved_settings := [''mitre_loaded'' \<mapsto> ''1'']\<rparr>))
   \<and> mitre_loaded (get_db (serve_all [(''t3'', LoadMitre \<lparr>json_candidates = [(JsonMissing, ''t3''), (JsonInvalid, ''t3'')],
      xlsx_candidates = [(XlsxMissing, fixed_clock ''t3'')], have_openpyxl = True\<rparr>)] (fresh_db\<lparr>saved_settings := [''mitre_loaded'' \<mapsto> ''1'']\<rparr>)))"
proof -
  have h0: "\<not> mitre_loaded fresh_db"
    by (simp add: mitre_loaded_def get_setting_def fresh_db_def)
  have h1: "0 < snd (admin_load_mitre \<lparr>json_candidates =
        [(JsonDoc (Layer [LayerTechnique
            \<lparr>techniqueID = Some ''T1059'', layer_tactic = Some ''execution''\<rparr>]), ''t1'')],
      xlsx_candidates = [], have_openpyxl = True\<rparr> fresh_db)"
    by (simp add: admin_load_mitre_def try_import_from_stix_or_layer_def finish_def
        or_empty_def lower_def lower_char_def Let_def)
  have h2: "mitre_loaded (get_db (fresh_db\<lparr>saved_settings := [''mitre_loaded'' \<mapsto> ''1'']\<rparr>))"
    by (simp add: mitre_loaded_def get_setting_def get_db_def)
  show ?thesis
    using h0 h1 h2
      populated_flag [where e = "\<lparr>json_candidates =
        [(JsonDoc (Layer [LayerTechnique
            \<lparr>techniqueID = Some ''T1059'', layer_tactic = Some ''execution''\<rparr>]), ''t1'')],
      xlsx_candidates = [], have_openpyxl = True\<rparr>" and db = fresh_db]
      populated_flag [where db = "(fresh_db\<lparr>saved_settings := [''mitre_loaded'' \<mapsto> ''1'']\<rparr>)" and reqs = "[(''t3'', LoadMitre \<lparr>json_candidates = [(JsonMissing, ''t3''), (JsonInvalid, ''t3'')],
      xlsx_candidates = [(XlsxMissing, fixed_clock ''t3'')], have_openpyxl = True\<rparr>)]"]
    by blast
qed

text \<open>
  Claim C8 as stated fails, for a total that counts changes. On the seeded catalog a
  layer that holds only the seeded pair T1059 under execution changes no row, yet the
  run reports 1 and sets the flag. On the same catalog a bundle that raises after its
  first object, followed by a workbook with no technique sheet, reports 0 and leaves the
  flag unset, yet the row of the first object is committed with the workbook.
\<close>

theorem flag_follows_candidates_not_changes:
  "\<not> mitre_loaded (seed_minimal_ttps ''t0'' fresh_db)
   \<and> ttps (fst (admin_load_mitre \<lparr>json_candidates =
        [(JsonDoc (Layer [LayerTechnique
            \<lparr>techniqueID = Some ''T1059'', layer_tactic = Some ''execution''\<rparr>]), ''t1'')],
      xlsx_candidates = [], have_openpyxl = True\<rparr> (seed_minimal_ttps ''t0'' fresh_db)))
       = ttps (seed_minimal_ttps ''t0'' fresh_db)
   \<and> snd (admin_load_mitre \<lparr>json_candidates =
        [(JsonDoc (Layer [LayerTechnique
            \<lparr>techniqueID = Some ''T1059'', layer_tactic = Some ''execution''\<rparr>]), ''t1'')],
      xlsx_candidates = [], have_openpyxl = True\<rparr> (seed_minimal_ttps ''t0'' fresh_db)) = 1
   \<and> mitre_loaded (fst (admin_load_mitre \<lparr>json_candidates =
        [(JsonDoc (Layer [LayerTechnique
            \<lparr>techniqueID = Some ''T1059'', layer_tactic = Some ''execution''\<rparr>]), ''t1'')],
      xlsx_candidates = [], have_openpyxl = True\<rparr> (seed_minimal_ttps ''t0'' fresh_db)))
   \<and> snd (admin_load_mitre \<lparr>json_candidates =
        [(JsonDoc (Bundle [StixObject
            \<lparr>stix_type = Some ''attack-pattern'', stix_name = Some ''Scheduled Task'',
             stix_description = Some ''d'',
             external_references =
               [\<lparr>source_name = Some ''mitre-attack'', external_id = Some ''T1053''\<rparr>],
             kill_chain_phases =
               [\<lparr>kill_chain_name = Some ''mitre-attack'',
                 phase_name = Some ''persistence''\<rparr>]\<rparr>,
           StixNotADict]), ''t1'')],
      xlsx_candidates =
        [(Workbook [\<lparr>header_cells = [Text ''Notes''], data_rows = []\<rparr>],
          fixed_clock ''t2'')],
      have_openpyxl = True\<rparr> (seed_minimal_ttps ''t0'' fresh_db)) = 0
   \<and> \<not> mitre_loaded (fst (admin_load_mitre \<lparr>json_candidates =
        [(JsonDoc (Bundle [StixObject
            \<lparr>stix_type = Some ''attack-pattern'', stix_name = Some ''Scheduled Task'',
             stix_description = Some ''d'',
             external_references =
               [\<lparr>source_name = Some ''mitre-attack'', external_id = Some ''T1053''\<rparr>],
             kill_chain_phases =
               [\<lparr>kill_chain_name = Some ''mitre-attack'',
                 phase_name = Some ''persistence''\<rparr>]\<rparr>,
           StixNotADict]), ''t1'')],
      xlsx_candidates =
        [(Workbook [\<lparr>header_cells = [Text ''Notes''], data_rows = []\<rparr>],
          fixed_clock ''t2'')],
      have_openpyxl = True\<rparr> (seed_minimal_ttps ''t0'' fresh_db)))
   \<and> keys_of (saved_ttps (fst (admin_load_mitre \<lparr>json_candidates =
        [(JsonDoc (Bundle [StixObject
            \<lparr>stix_type = Some ''attack-pattern'', stix_name = Some ''Scheduled Task'',
             stix_description = Some ''d'',
             external_references =
               [\<lparr>source_name = Some ''mitre-attack'', external_id = Some ''T1053''\<rparr>],
             kill_chain_phases =
               [\<lparr>kill_chain_name = Some ''mitre-attack'',
                 phase_name = Some ''persistence''\<rparr>]\<rparr>,
           StixNotADict]), ''t1'')],
      xlsx_candidates =
        [(Workbook [\<lparr>header_cells = [Text ''Notes''], data_rows = []\<rparr>],
          fixed_clock ''t2'')],
      have_openpyxl = True\<rparr> (seed_minimal_ttps ''t0'' fresh_db))))
       = keys_of (saved_ttps (seed_minimal_ttps ''t0'' fresh_db)) @ [(''T1053'', ''persistence'')]"
  by (simp add: admin_load_mitre_def try_import_from_stix_or_layer_def finish_def commit_def
      set_setting_def seed_minimal_ttps_def fresh_db_def DEFAULT_TTPS_def insert_or_ignore_def
      keys_of_def row_key_def stix_rows_def stix_tactics_def ref_matches_def or_empty_def
      lower_def lower_char_def startswith_def strip_def isspace_def try_enrich_from_xlsx_def
      xlsx_sheet_def find_col_id_def find_col_name_def find_col_tac_def find_col_desc_def
      sheet_header_def not_col_def mitre_loaded_def get_setting_def Let_def)

end
